theory Spec2Isabelle
  imports Main
begin

section \<open>Python values used by agent.py\<close>

subsection \<open>Strings\<close>

text \<open>
  A Python \<open>str\<close> is modelled as a \<open>string\<close> whose characters are the code points
  below 256. \<open>is_space\<close> is \<open>str.isspace\<close> on those code points, which is the set
  \<open>str.strip()\<close> removes: TAB, LF, VT, FF, CR, FS, GS, RS, US, SPACE, NEL and NBSP.
\<close>

definition is_space :: "char \<Rightarrow> bool" where
  "is_space c \<longleftrightarrow>
     c \<in> set [CHR 0x09, CHR 0x0A, CHR 0x0B, CHR 0x0C, CHR 0x0D,
               CHR 0x1C, CHR 0x1D, CHR 0x1E, CHR 0x1F, CHR 0x20, CHR 0x85, CHR 0xA0]"

definition strip_chars :: "(char \<Rightarrow> bool) \<Rightarrow> string \<Rightarrow> string" where
  "strip_chars P s = rev (dropWhile P (rev (dropWhile P s)))"

text \<open>\<open>s.strip()\<close>\<close>

definition py_strip :: "string \<Rightarrow> string" where
  "py_strip s = strip_chars is_space s"

text \<open>\<open>s.strip("`")\<close>\<close>

definition strip_backticks :: "string \<Rightarrow> string" where
  "strip_backticks s = strip_chars (\<lambda>c. c = CHR 0x60) s"

text \<open>\<open>s.startswith(p)\<close>\<close>

definition startswith :: "string \<Rightarrow> string \<Rightarrow> bool" where
  "startswith s p \<longleftrightarrow> take (length p) s = p"

text \<open>\<open>p in s\<close> for strings: \<open>p\<close> occurs as a contiguous substring of \<open>s\<close>.\<close>

fun py_in :: "string \<Rightarrow> string \<Rightarrow> bool" where
  "py_in p [] = (p = [])"
| "py_in p (c # cs) = (startswith (c # cs) p \<or> py_in p cs)"

subsection \<open>Exceptions\<close>

text \<open>
  \<open>Exc cls msg\<close> is an instance of a subclass of \<open>Exception\<close> with class name \<open>cls\<close> and
  \<open>str(e) = msg\<close>; these are what \<open>except Exception\<close> catches. \<open>SystemExit n\<close> is what
  \<open>sys.exit(n)\<close> raises, and \<open>BaseExc\<close> is any other exception outside \<open>Exception\<close>
  (\<open>KeyboardInterrupt\<close>, \<open>GeneratorExit\<close>); neither is caught by \<open>except Exception\<close>.
\<close>

datatype exn = Exc string string | SystemExit int | BaseExc string string

subsection \<open>The filesystem\<close>

text \<open>
  Paths are flat keys; a path holds a regular file with its text, a directory, or nothing.
  Each operation has the failure branch that \<open>pathlib\<close> has for the wrong kind of node;
  permissions, disk space and missing parent directories are outside the model. Two more
  things are outside it. The working directory is fixed, so a relative path of agent.py
  names the same node during a whole run: a candidate that calls \<open>os.chdir\<close> is not
  represented. And every text is one that UTF-8 encodes, so \<open>write_text\<close> never fails
  while encoding: on a text with a lone surrogate the real \<open>write_text\<close> creates the file
  and then raises \<open>UnicodeEncodeError\<close>.
\<close>

type_synonym path = string

datatype node = File string | Dir

type_synonym filesystem = "path \<Rightarrow> node option"

text \<open>\<open>Path.exists()\<close>: true for files and directories alike.\<close>

definition path_exists :: "filesystem \<Rightarrow> path \<Rightarrow> bool" where
  "path_exists f p \<longleftrightarrow> f p \<noteq> None"

definition is_file :: "filesystem \<Rightarrow> path \<Rightarrow> bool" where
  "is_file f p \<longleftrightarrow> (case f p of Some (File _) \<Rightarrow> True | _ \<Rightarrow> False)"

text \<open>\<open>Path.mkdir(exist_ok=True)\<close>: \<open>FileExistsError\<close> when the path is a regular file.\<close>

definition mkdir_exist_ok :: "filesystem \<Rightarrow> path \<Rightarrow> exn + filesystem" where
  "mkdir_exist_ok f p =
     (case f p of
        None \<Rightarrow> Inr (f(p \<mapsto> Dir))
      | Some Dir \<Rightarrow> Inr f
      | Some (File _) \<Rightarrow> Inl (Exc ''FileExistsError'' p))"

text \<open>\<open>Path.touch()\<close>: creates an empty file when nothing is there, else only the times change.\<close>

definition touch :: "filesystem \<Rightarrow> path \<Rightarrow> filesystem" where
  "touch f p = (case f p of None \<Rightarrow> f(p \<mapsto> File []) | Some _ \<Rightarrow> f)"

text \<open>\<open>Path.write_text(s)\<close>: creates or overwrites a regular file.\<close>

definition write_text :: "filesystem \<Rightarrow> path \<Rightarrow> string \<Rightarrow> exn + filesystem" where
  "write_text f p s =
     (case f p of
        Some Dir \<Rightarrow> Inl (Exc ''IsADirectoryError'' p)
      | _ \<Rightarrow> Inr (f(p \<mapsto> File s)))"

text \<open>\<open>Path.unlink()\<close>\<close>

definition unlink :: "filesystem \<Rightarrow> path \<Rightarrow> exn + filesystem" where
  "unlink f p =
     (case f p of
        None \<Rightarrow> Inl (Exc ''FileNotFoundError'' p)
      | Some Dir \<Rightarrow> Inl (Exc ''IsADirectoryError'' p)
      | Some (File _) \<Rightarrow> Inr (f(p := None)))"

subsection \<open>Tables\<close>

text \<open>
  A cell of a \<open>DataFrame\<close> is a string, a number or the missing marker \<open>NaN\<close>. The numbers
  are an opaque type \<open>'n\<close>: the program never computes with them, it only compares them.
  A column label is a string, an integer position (the labels of a frame built without
  names) or missing. Every column has a dtype: \<open>object\<close> for a column of Python objects
  (texts, with the missing marker among them), \<open>float64\<close> and \<open>int64\<close> for the numeric
  columns, and the others by name. A frame is its column labels, their dtypes, and its
  rows, each row with its index label.
\<close>

datatype 'n cell = Str string | Num 'n | NaN

datatype label = LStr string | LInt nat | LNaN

datatype dtype = ObjectDtype | Float64 | Int64 | OtherDtype string

record 'n frame =
  columns :: "label list"
  dtypes :: "dtype list"
  rows :: "(nat \<times> 'n cell list) list"

text \<open>\<open>df.reset_index(drop=True)\<close>: the index labels become \<open>0, 1, 2, ...\<close>\<close>

definition reset_index :: "'n frame \<Rightarrow> 'n frame" where
  "reset_index df = df\<lparr>rows := zip [0..<length (rows df)] (map snd (rows df))\<rparr>"

text \<open>
  \<open>df.equals(other)\<close>: same column labels, same index, the same dtype column by column,
  and the same cells, where two missing markers at the same place count as equal (\<open>NaN\<close>
  is a constructor here, so it is equal to itself).
\<close>

definition equals :: "'n frame \<Rightarrow> 'n frame \<Rightarrow> bool" where
  "equals df other \<longleftrightarrow>
     columns df = columns other \<and> dtypes df = dtypes other \<and> rows df = rows other"

text \<open>\<open>df.head(n)\<close>\<close>

definition head :: "nat \<Rightarrow> 'n frame \<Rightarrow> 'n frame" where
  "head n df = df\<lparr>rows := take n (rows df)\<rparr>"

text \<open>What a candidate's \<open>parse\<close> returns: a frame, or some other object (by type name).\<close>

datatype 'n pyval = PyFrame "'n frame" | PyOther string

text \<open>
  A loaded module: its \<open>parse\<close> attribute when it has one, as a function of the input path
  and the filesystem that returns or raises and leaves a filesystem behind.
\<close>

datatype 'n pymodule =
  PyModule "(path \<Rightarrow> filesystem \<Rightarrow> (exn + 'n pyval) \<times> filesystem) option"

section \<open>The collaborators and the state of a run\<close>

text \<open>
  Everything agent.py calls and does not define is a field of the environment:
  \<^item> \<open>groq_chat k target head\<close>: the text (\<open>resp.choices[0].message.content\<close>) of the
    \<open>k\<close>-th chat completion, for the prompt built from \<open>target\<close> and the rendering of the
    first reference rows, or the exception the client raises;
  \<^item> \<open>urandom_hex k\<close>: the \<open>k\<close>-th value of \<open>os.urandom(4).hex()\<close>;
  \<^item> \<open>py_exec src f\<close>: what \<open>spec.loader.exec_module\<close> does on a file with source \<open>src\<close>;
  \<^item> \<open>read_csv s\<close>: \<open>pd.read_csv\<close> on a file with content \<open>s\<close>;
  \<^item> \<open>str_to_num s\<close>: the number that \<open>pd.to_numeric\<close> reads in \<open>s\<close>, if any;
  \<^item> \<open>numeric_dtype cs\<close>: the dtype \<open>pd.to_numeric\<close> gives a column of objects that it
    turned into the cells \<open>cs\<close> (\<open>int64\<close> or \<open>float64\<close>, by the values);
  \<^item> \<open>to_string df\<close>: the lines of \<open>df.to_string()\<close>;
  \<^item> \<open>to_csv df\<close>: the text \<open>df.to_csv(index=False)\<close> writes;
  \<^item> \<open>diff_hunks a b\<close>: the hunks, line by line, that \<open>difflib.unified_diff\<close> prints for
    two different sequences of lines.
\<close>

record 'n env =
  groq_chat :: "nat \<Rightarrow> string \<Rightarrow> string list \<Rightarrow> exn + string"
  urandom_hex :: "nat \<Rightarrow> string"
  py_exec :: "string \<Rightarrow> filesystem \<Rightarrow> (exn + 'n pymodule) \<times> filesystem"
  read_csv :: "string \<Rightarrow> exn + 'n frame"
  str_to_num :: "string \<Rightarrow> 'n option"
  numeric_dtype :: "'n cell list \<Rightarrow> dtype"
  to_string :: "'n frame \<Rightarrow> string list"
  to_csv :: "'n frame \<Rightarrow> string"
  diff_hunks :: "string list \<Rightarrow> string list \<Rightarrow> string list"

text \<open>
  \<open>difflib.unified_diff(a, b, lineterm="")\<close>: nothing at all when the two sequences
  are equal; for two different sequences the two header lines, which are \<open>--- \<close> and
  \<open>+++ \<close> since no file names are given, and then the hunks.
\<close>

definition unified_diff :: "'n env \<Rightarrow> string list \<Rightarrow> string list \<Rightarrow> string list" where
  "unified_diff env a b = (if a = b then [] else ''--- '' # ''+++ '' # diff_hunks env a b)"

text \<open>
  What the functions print and return as messages, one constructor per format string of
  the source.
\<close>

datatype message =
    EmptyCode                       \<comment> \<open>"LLM returned empty code."\<close>
  | ImportRuntimeError string       \<comment> \<open>"IMPORT/RUNTIME ERROR:\n{e}"\<close>
  | MismatchColumns "label list" "label list"
                                    \<comment> \<open>"Mismatch columns.\nExpected: {..}\nGot: {..}"\<close>
  | Matched path                    \<comment> \<open>"Parser matched expected output! ... saved to: {path}"\<close>
  | DataMismatch "string list"      \<comment> \<open>"Data mismatch. Debug:\n" + the joined diff lines\<close>

datatype printed =
    Usage                           \<comment> \<open>"Usage: python agent.py --target <bank_name>"\<close>
  | Running string                  \<comment> \<open>"Running agent for target: {target}"\<close>
  | MissingFiles path path          \<comment> \<open>"Error: Missing files. Ensure '{pdf}' and '{csv}' exist."\<close>
  | AttemptBanner nat nat           \<comment> \<open>"--- ATTEMPT {attempt}/{max_attempts} ---"\<close>
  | Message message                 \<comment> \<open>print(message)\<close>
  | AttemptFailed nat message       \<comment> \<open>"Attempt {attempt} failed: {message}"\<close>
  | Unexpected nat string           \<comment> \<open>"An unexpected error occurred in attempt {attempt}: {e}"\<close>
  | Exhausted                       \<comment> \<open>"LLM attempts exhausted - trying deterministic fallback parser."\<close>
  | FallbackFailed message          \<comment> \<open>"Fallback parser did NOT match expected CSV. Debug:\n{message}"\<close>
  | SaveEmpty                       \<comment> \<open>"ERROR: Attempted to save empty code. Aborting."\<close>
  | SaveWriting path "string list"  \<comment> \<open>"Writing the following code to {path}:" and five lines\<close>
  | SaveDone path                   \<comment> \<open>"Successfully saved parser to {path}"\<close>

text \<open>
  The trace records the calls of the four operations of the controller, in order. It has
  no counterpart in the source: it is there to state which calls a run makes.
\<close>

datatype event =
    Generate                        \<comment> \<open>\<open>ask_groq_for_parser\<close> is called\<close>
  | Validate string                 \<comment> \<open>\<open>run_test\<close> is called with this code\<close>
  | Sandbox string                  \<comment> \<open>\<open>run_generated_code\<close> is called with this code\<close>
  | Save string                     \<comment> \<open>\<open>save_parser_code\<close> is called with this code\<close>

record world =
  fs :: filesystem
  stdout :: "printed list"
  sys_modules :: "string list"
  oracle_calls :: nat
  rand_calls :: nat
  trace :: "event list"

definition print :: "printed \<Rightarrow> world \<Rightarrow> world" where
  "print x w = w\<lparr>stdout := stdout w @ [x]\<rparr>"

definition log :: "event \<Rightarrow> world \<Rightarrow> world" where
  "log e w = w\<lparr>trace := trace w @ [e]\<rparr>"

section \<open>The sandbox runner: \<open>run_generated_code\<close>\<close>

text \<open>The name of the scratch file of the run that starts in \<open>w\<close>.\<close>

definition parser_module_name :: "'n env \<Rightarrow> string \<Rightarrow> world \<Rightarrow> string" where
  "parser_module_name env target w = target @ ''_parser_'' @ urandom_hex env (rand_calls w)"

definition parser_file :: "'n env \<Rightarrow> string \<Rightarrow> world \<Rightarrow> path" where
  "parser_file env target w = ''custom_parsers/'' @ parser_module_name env target w @ ''.py''"

text \<open>
  Lines 40 to 48: draw the name, make the directory, touch \<open>__init__.py\<close>, write the code.
  An exception here is raised before the \<open>try\<close>.
\<close>

definition sandbox_setup :: "'n env \<Rightarrow> string \<Rightarrow> string \<Rightarrow> world \<Rightarrow> exn option \<times> world" where
  "sandbox_setup env code target w =
     (let w1 = w\<lparr>rand_calls := Suc (rand_calls w)\<rparr> in
      case mkdir_exist_ok (fs w1) ''custom_parsers'' of
        Inl e \<Rightarrow> (Some e, w1)
      | Inr f1 \<Rightarrow>
          (let f2 = touch f1 ''custom_parsers/__init__.py'' in
           case write_text f2 (parser_file env target w) code of
             Inl e \<Rightarrow> (Some e, w1\<lparr>fs := f2\<rparr>)
           | Inr f3 \<Rightarrow> (None, w1\<lparr>fs := f3\<rparr>)))"

text \<open>
  Lines 51 to 55, the body of the \<open>try\<close>: register the module, execute the file that was
  written (the loader reads it back from disk), then call \<open>module.parse(pdf_path)\<close>.
\<close>

definition exec_module ::
    "'n env \<Rightarrow> path \<Rightarrow> filesystem \<Rightarrow> (exn + 'n pymodule) \<times> filesystem" where
  "exec_module env p f =
     (case f p of
        Some (File src) \<Rightarrow> py_exec env src f
      | Some Dir \<Rightarrow> (Inl (Exc ''IsADirectoryError'' p), f)
      | None \<Rightarrow> (Inl (Exc ''FileNotFoundError'' p), f))"

definition sandbox_body ::
    "'n env \<Rightarrow> path \<Rightarrow> string \<Rightarrow> path \<Rightarrow> world \<Rightarrow> (exn + 'n pyval) \<times> world" where
  "sandbox_body env pfile mname pdf_path w =
     (let w1 = w\<lparr>sys_modules := (''custom_parsers.'' @ mname) # sys_modules w\<rparr> in
      case exec_module env pfile (fs w1) of
        (Inl e, f1) \<Rightarrow> (Inl e, w1\<lparr>fs := f1\<rparr>)
      | (Inr (PyModule None), f1) \<Rightarrow>
          (Inl (Exc ''AttributeError'' ''module has no attribute parse''), w1\<lparr>fs := f1\<rparr>)
      | (Inr (PyModule (Some parse)), f1) \<Rightarrow>
          (case parse pdf_path f1 of (r, f2) \<Rightarrow> (r, w1\<lparr>fs := f2\<rparr>)))"

text \<open>
  Lines 56 to 59, the \<open>finally\<close>: unlink the file if the path exists. An exception raised
  here replaces the outcome of the body.
\<close>

definition sandbox_cleanup ::
    "path \<Rightarrow> (exn + 'n pyval) \<times> world \<Rightarrow> (exn + 'n pyval) \<times> world" where
  "sandbox_cleanup pfile rw =
     (case rw of (r, w) \<Rightarrow>
        if path_exists (fs w) pfile then
          (case unlink (fs w) pfile of
             Inl e \<Rightarrow> (Inl e, w)
           | Inr f \<Rightarrow> (r, w\<lparr>fs := f\<rparr>))
        else (r, w))"

definition run_generated_code ::
    "'n env \<Rightarrow> string \<Rightarrow> path \<Rightarrow> string \<Rightarrow> world \<Rightarrow> (exn + 'n pyval) \<times> world" where
  "run_generated_code env code pdf_path target w =
     (let w0 = log (Sandbox code) w in
      case sandbox_setup env code target w0 of
        (Some e, w1) \<Rightarrow> (Inl e, w1)
      | (None, w1) \<Rightarrow>
          sandbox_cleanup (parser_file env target w0)
            (sandbox_body env (parser_file env target w0)
               (parser_module_name env target w0) pdf_path w1))"

section \<open>The reference loader: \<open>read_csv_as_df\<close>\<close>

text \<open>
  Rows of a pandas frame have one cell per column; \<open>cell_at\<close> reads a position and gives
  the missing marker where a row of the model is too short.
\<close>

definition cell_at :: "'n cell list \<Rightarrow> nat \<Rightarrow> 'n cell" where
  "cell_at r i = (if i < length r then r ! i else NaN)"

text \<open>The positions at which a label occurs among the column labels.\<close>

definition positions :: "label list \<Rightarrow> label \<Rightarrow> nat list" where
  "positions cols l = filter (\<lambda>i. cols ! i = l) [0..<length cols]"

text \<open>Mapping a function that may raise over a list: the first exception wins.\<close>

fun map_sum :: "('a \<Rightarrow> 'e + 'b) \<Rightarrow> 'a list \<Rightarrow> 'e + 'b list" where
  "map_sum g [] = Inr []"
| "map_sum g (x # xs) =
     (case g x of
        Inl e \<Rightarrow> Inl e
      | Inr y \<Rightarrow> (case map_sum g xs of Inl e \<Rightarrow> Inl e | Inr ys \<Rightarrow> Inr (y # ys)))"

text \<open>
  \<open>pd.to_numeric(column, errors=...)\<close>: a string that reads as a number becomes that
  number, numbers and missing markers stay, and a string that does not read as a number
  raises \<open>ValueError\<close> under \<open>errors='raise'\<close> and becomes the missing marker under
  \<open>errors='coerce'\<close>. A column of objects comes back with a numeric dtype, any other
  column with the dtype it had.
\<close>

datatype errors_mode = ErrorsRaise | ErrorsCoerce

definition to_numeric_cell :: "'n env \<Rightarrow> errors_mode \<Rightarrow> 'n cell \<Rightarrow> exn + 'n cell" where
  "to_numeric_cell env errors c =
     (case c of
        Str s \<Rightarrow>
          (case str_to_num env s of
             Some v \<Rightarrow> Inr (Num v)
           | None \<Rightarrow>
               (case errors of
                  ErrorsCoerce \<Rightarrow> Inr NaN
                | ErrorsRaise \<Rightarrow> Inl (Exc ''ValueError'' (''Unable to parse string '' @ s))))
      | _ \<Rightarrow> Inr c)"

definition pd_to_numeric ::
    "'n env \<Rightarrow> dtype \<Rightarrow> 'n cell list \<Rightarrow> errors_mode \<Rightarrow> exn + dtype \<times> 'n cell list" where
  "pd_to_numeric env dt col errors =
     (case map_sum (to_numeric_cell env errors) col of
        Inl e \<Rightarrow> Inl e
      | Inr cs \<Rightarrow> Inr (if dt = ObjectDtype then numeric_dtype env cs else dt, cs))"

text \<open>The dtype of the column at a position.\<close>

definition dtype_at :: "'n frame \<Rightarrow> nat \<Rightarrow> dtype" where
  "dtype_at df i = (if i < length (dtypes df) then dtypes df ! i else ObjectDtype)"

text \<open>
  \<open>df[l] = g(df[l])\<close>, where \<open>g\<close> gives the new column its dtype and its cells:
  \<open>KeyError\<close> when no column has the label; with the label on several columns \<open>df[l]\<close>
  is a frame, which \<open>g\<close> does not accept, and \<open>dup\<close> is what it raises then.
\<close>

definition update_column ::
    "label \<Rightarrow> exn \<Rightarrow> (dtype \<Rightarrow> 'n cell list \<Rightarrow> exn + dtype \<times> 'n cell list) \<Rightarrow> 'n frame
       \<Rightarrow> exn + 'n frame" where
  "update_column l dup g df =
     (case positions (columns df) l of
        [] \<Rightarrow> Inl (Exc ''KeyError'' (case l of LStr s \<Rightarrow> s | _ \<Rightarrow> []))
      | [i] \<Rightarrow>
          (case g (dtype_at df i) (map (\<lambda>kr. cell_at (snd kr) i) (rows df)) of
             Inl e \<Rightarrow> Inl e
           | Inr (dt, cs) \<Rightarrow>
               Inr (df\<lparr>dtypes := (dtypes df)[i := dt],
                       rows := map (\<lambda>(kr, c). (fst kr, (snd kr)[i := c])) (zip (rows df) cs)\<rparr>))
      | _ \<Rightarrow> Inl dup)"

text \<open>The loop \<open>for col in [...]: df[col] = pd.to_numeric(df[col], errors='coerce')\<close>.\<close>

fun coerce_columns :: "'n env \<Rightarrow> string list \<Rightarrow> 'n frame \<Rightarrow> exn + 'n frame" where
  "coerce_columns env [] df = Inr df"
| "coerce_columns env (col # cols) df =
     (case update_column (LStr col)
             (Exc ''TypeError'' ''arg must be a list, tuple, 1-d array, or Series'')
             (\<lambda>dt c. pd_to_numeric env dt c ErrorsCoerce) df of
        Inl e \<Rightarrow> Inl e
      | Inr df' \<Rightarrow> coerce_columns env cols df')"

definition numeric_columns :: "string list" where
  "numeric_columns = [''Debit Amt'', ''Credit Amt'', ''Balance'']"

text \<open>\<open>pd.read_csv(path)\<close>: the file is read from disk and handed to the CSV parser.\<close>

definition pd_read_csv :: "'n env \<Rightarrow> filesystem \<Rightarrow> path \<Rightarrow> exn + 'n frame" where
  "pd_read_csv env f p =
     (case f p of
        Some (File s) \<Rightarrow> read_csv env s
      | Some Dir \<Rightarrow> Inl (Exc ''IsADirectoryError'' p)
      | None \<Rightarrow> Inl (Exc ''FileNotFoundError'' p))"

definition read_csv_as_df :: "'n env \<Rightarrow> filesystem \<Rightarrow> path \<Rightarrow> exn + 'n frame" where
  "read_csv_as_df env f csv_path =
     (case pd_read_csv env f csv_path of
        Inl e \<Rightarrow> Inl e
      | Inr df \<Rightarrow> coerce_columns env numeric_columns df)"

section \<open>The generation client: \<open>ask_groq_for_parser\<close>\<close>

text \<open>
  The prompt is a fixed text around \<open>target\<close> and the rendering of the first five
  reference rows, so the request is determined by these two and by how many requests
  came before. A response without text (\<open>content\<close> is \<open>None\<close>) makes \<open>code.strip()\<close>
  raise inside the same \<open>try\<close> of the caller; it is an \<open>Inl\<close> of \<open>groq_chat\<close> here.
\<close>

definition ask_groq_for_parser ::
    "'n env \<Rightarrow> string \<Rightarrow> path \<Rightarrow> path \<Rightarrow> world \<Rightarrow> (exn + string) \<times> world" where
  "ask_groq_for_parser env target pdf_path csv_path w =
     (let w0 = log Generate w in
      case read_csv_as_df env (fs w0) csv_path of
        Inl e \<Rightarrow> (Inl e, w0)
      | Inr expected_df \<Rightarrow>
          (let expected_head = to_string env (head 5 expected_df) in
           (groq_chat env (oracle_calls w0) target expected_head,
            w0\<lparr>oracle_calls := Suc (oracle_calls w0)\<rparr>)))"

section \<open>The validator: \<open>run_test\<close>\<close>

definition output_path :: "string \<Rightarrow> path" where
  "output_path target = ''output/'' @ target @ ''_output.csv''"

definition run_test ::
    "'n env \<Rightarrow> string \<Rightarrow> path \<Rightarrow> path \<Rightarrow> string \<Rightarrow> world \<Rightarrow> (exn + bool \<times> message) \<times> world" where
  "run_test env target pdf_path csv_path code w =
     (let w0 = log (Validate code) w in
      if code = [] \<or> py_strip code = [] then (Inr (False, EmptyCode), w0)
      else
        case run_generated_code env code pdf_path target w0 of
          (Inl (Exc cls msg), w1) \<Rightarrow> (Inr (False, ImportRuntimeError msg), w1)
        | (Inl e, w1) \<Rightarrow> (Inl e, w1)
        | (Inr v, w1) \<Rightarrow>
            (case read_csv_as_df env (fs w1) csv_path of
               Inl e \<Rightarrow> (Inl e, w1)
             | Inr expected0 \<Rightarrow>
                 (case v of
                    PyOther ty \<Rightarrow>
                      (Inl (Exc ''AttributeError'' (ty @ '' object has no attribute reset_index'')),
                       w1)
                  | PyFrame df0 \<Rightarrow>
                      (let df = reset_index df0; expected = reset_index expected0 in
                       if columns df \<noteq> columns expected then
                         (Inr (False, MismatchColumns (columns expected) (columns df)), w1)
                       else if equals df expected then
                         (case mkdir_exist_ok (fs w1) ''output'' of
                            Inl e \<Rightarrow> (Inl e, w1)
                          | Inr f1 \<Rightarrow>
                              (case write_text f1 (output_path target) (to_csv env df) of
                                 Inl e \<Rightarrow> (Inl e, w1\<lparr>fs := f1\<rparr>)
                               | Inr f2 \<Rightarrow>
                                   (Inr (True, Matched (output_path target)), w1\<lparr>fs := f2\<rparr>)))
                       else
                         (Inr (False,
                               DataMismatch
                                 (take 40 (unified_diff env (to_string env expected)
                                             (to_string env df)))),
                          w1)))))"

section \<open>The fallback parser\<close>

subsection \<open>Its text: \<open>make_fallback_parser_code\<close>\<close>

definition dq :: string where "dq = [CHR 0x22]"
definition sq :: string where "sq = [CHR 0x27]"
definition bs :: string where "bs = [CHR 0x5C]"

definition fallback_lines :: "string list" where
  "fallback_lines =
     ['''',
      ''import pandas as pd'',
      ''import camelot'',
      '''',
      ''def parse(pdf_path: str) -> pd.DataFrame:'',
      ''    tables = camelot.read_pdf(pdf_path, pages='' @ dq @ ''all'' @ dq @ '', flavor='' @ dq @ ''stream'' @ dq @ '')'',
      ''    if not tables:'',
      ''        raise ValueError('' @ dq @ ''No tables found in PDF'' @ dq @ '')'',
      ''    df = pd.concat([table.df for table in tables], ignore_index=True)'',
      ''    header_index = -1'',
      ''    for i, row in df.iterrows():'',
      ''        if '' @ sq @ ''Date'' @ sq @ '' in str(row[0]) and '' @ sq @ ''Description'' @ sq @ '' in str(row[1]):'',
      ''            header_index = i'',
      ''            break'',
      ''    if header_index != -1:'',
      ''        df.columns = df.iloc[header_index]'',
      ''        df = df.iloc[header_index + 1:].reset_index(drop=True)'',
      ''    if df.shape[1] == 5:'',
      ''        df.columns = ['' @ sq @ ''Date'' @ sq @ '', '' @ sq @ ''Description'' @ sq @ '', '' @ sq @ ''Debit Amt'' @ sq @ '', '' @ sq @ ''Credit Amt'' @ sq @ '', '' @ sq @ ''Balance'' @ sq @ '']'',
      ''    else:'',
      ''        df = df[df[0].str.match(r'' @ sq @ bs @ ''d{2}-'' @ bs @ ''d{2}-'' @ bs @ ''d{4}'' @ sq @ '', na=False)]'',
      ''        df = df.iloc[:, :5]'',
      ''        df.columns = ['' @ sq @ ''Date'' @ sq @ '', '' @ sq @ ''Description'' @ sq @ '', '' @ sq @ ''Debit Amt'' @ sq @ '', '' @ sq @ ''Credit Amt'' @ sq @ '', '' @ sq @ ''Balance'' @ sq @ '']'',
      ''    df['' @ sq @ ''Description'' @ sq @ ''] = df['' @ sq @ ''Description'' @ sq @ ''].str.replace('' @ sq @ bs @ ''n'' @ sq @ '', '' @ sq @ '' '' @ sq @ '', regex=False).str.strip()'',
      ''    for col in ['' @ sq @ ''Debit Amt'' @ sq @ '', '' @ sq @ ''Credit Amt'' @ sq @ '', '' @ sq @ ''Balance'' @ sq @ '']:'',
      ''        df[col] = pd.to_numeric(df[col], errors='' @ sq @ ''coerce'' @ sq @ '')'',
      ''    df.dropna(subset=['' @ sq @ ''Date'' @ sq @ ''], inplace=True)'',
      ''    df = df[df['' @ sq @ ''Date'' @ sq @ ''].str.match(r'' @ sq @ bs @ ''d{2}-'' @ bs @ ''d{2}-'' @ bs @ ''d{4}'' @ sq @ '', na=False)].reset_index(drop=True)'',
      ''    return df'']"

text \<open>The text is the lines above, each followed by a line feed.\<close>

definition make_fallback_parser_code :: string where
  "make_fallback_parser_code = concat (map (\<lambda>l. l @ [CHR 0x0A]) fallback_lines)"

subsection \<open>What the text computes: \<open>parse\<close>\<close>

text \<open>
  A raw grid of the table-extraction collaborator (\<open>table.df\<close>): a number of columns,
  labelled \<open>0, 1, ...\<close>, and rows of text cells.
\<close>

record grid =
  ncols :: nat
  cells :: "string list list"

definition schema :: "label list" where
  "schema = [LStr ''Date'', LStr ''Description'', LStr ''Debit Amt'', LStr ''Credit Amt'',
             LStr ''Balance'']"

text \<open>
  \<open>pd.concat(frames, ignore_index=True)\<close> on grids: the columns are the union of the
  integer labels, the rows follow each other, and a grid with fewer columns has the
  missing marker in the others. The cells of a grid are texts, so every column is a
  column of objects.
\<close>

definition pad_row :: "nat \<Rightarrow> string list \<Rightarrow> 'n cell list" where
  "pad_row w r = map Str (take w r) @ replicate (w - length r) NaN"

definition pd_concat :: "grid list \<Rightarrow> 'n frame" where
  "pd_concat gs =
     (let w = foldr max (map ncols gs) 0;
          rs = concat (map (\<lambda>g. map (pad_row w) (cells g)) gs)
      in \<lparr>columns = map LInt [0..<w], dtypes = replicate w ObjectDtype,
          rows = zip [0..<length rs] rs\<rparr>)"

text \<open>\<open>str(x)\<close> of a cell of a grid: the missing marker prints as \<open>nan\<close>.\<close>

definition cell_str :: "'n cell \<Rightarrow> string" where
  "cell_str c = (case c of Str s \<Rightarrow> s | _ \<Rightarrow> ''nan'')"

text \<open>
  The header search (lines 157 to 161 of agent.py). \<open>row[0]\<close> and \<open>row[1]\<close> are lookups by
  label, so they raise \<open>KeyError\<close> when the frame has no such column; \<open>and\<close> evaluates
  \<open>row[1]\<close> only when the first test holds.
\<close>

fun find_header :: "label list \<Rightarrow> (nat \<times> 'n cell list) list \<Rightarrow> exn + nat option" where
  "find_header cols [] = Inr None"
| "find_header cols ((i, row) # rest) =
     (case positions cols (LInt 0) of
        [] \<Rightarrow> Inl (Exc ''KeyError'' ''0'')
      | p0 # _ \<Rightarrow>
          if py_in ''Date'' (cell_str (cell_at row p0)) then
            (case positions cols (LInt 1) of
               [] \<Rightarrow> Inl (Exc ''KeyError'' ''1'')
             | p1 # _ \<Rightarrow>
                 if py_in ''Description'' (cell_str (cell_at row p1))
                 then Inr (Some i)
                 else find_header cols rest)
          else find_header cols rest)"

text \<open>
  \<open>re.match(r'\d{2}-\d{2}-\d{4}', s)\<close>: the pattern is matched at the start of \<open>s\<close>, and
  \<open>s\<close> may go on after it. \<open>Series.str.match(..., na=False)\<close> is false on a missing cell.
\<close>

datatype pat = Digit | Lit char

definition is_digit :: "char \<Rightarrow> bool" where
  "is_digit c \<longleftrightarrow> c \<in> set ''0123456789''"

fun re_match :: "pat list \<Rightarrow> string \<Rightarrow> bool" where
  "re_match [] s = True"
| "re_match (p # ps) [] = False"
| "re_match (p # ps) (c # cs) =
     ((case p of Digit \<Rightarrow> is_digit c | Lit x \<Rightarrow> c = x) \<and> re_match ps cs)"

definition date_pattern :: "pat list" where
  "date_pattern = [Digit, Digit, Lit CHR ''-'', Digit, Digit, Lit CHR ''-'',
                   Digit, Digit, Digit, Digit]"

definition str_match :: "pat list \<Rightarrow> 'n cell \<Rightarrow> bool" where
  "str_match pt c = (case c of Str s \<Rightarrow> re_match pt s | _ \<Rightarrow> False)"

text \<open>\<open>.str.replace('\n', ' ', regex=False).str.strip()\<close> on one cell.\<close>

definition clean_description :: "'n cell \<Rightarrow> 'n cell" where
  "clean_description c =
     (case c of
        Str s \<Rightarrow> Str (py_strip (map (\<lambda>x. if x = CHR 0x0A then CHR '' '' else x) s))
      | _ \<Rightarrow> c)"

text \<open>
  \<open>df[df[l].str.match(pattern, na=False)]\<close> for the one column at position \<open>p\<close>: the
  \<open>.str\<close> accessor is there for a column of objects only.
\<close>

definition filter_str_match :: "pat list \<Rightarrow> nat \<Rightarrow> 'n frame \<Rightarrow> exn + 'n frame" where
  "filter_str_match pt p df =
     (if dtype_at df p \<noteq> ObjectDtype
      then Inl (Exc ''AttributeError'' ''Can only use .str accessor with string values!'')
      else Inr (df\<lparr>rows := filter (\<lambda>kr. str_match pt (cell_at (snd kr) p)) (rows df)\<rparr>))"

text \<open>\<open>df[l].str.replace(...).str.strip()\<close> as the new content of a column.\<close>

definition str_clean :: "dtype \<Rightarrow> 'n cell list \<Rightarrow> exn + dtype \<times> 'n cell list" where
  "str_clean dt col =
     (if dt \<noteq> ObjectDtype
      then Inl (Exc ''AttributeError'' ''Can only use .str accessor with string values!'')
      else Inr (ObjectDtype, map clean_description col))"

text \<open>
  Lines 153 to 170: concatenate, find the header, cut the preamble, name the columns.
\<close>

definition fallback_working :: "grid list \<Rightarrow> exn + 'n frame" where
  "fallback_working tables =
     (if tables = [] then Inl (Exc ''ValueError'' ''No tables found in PDF'')
      else
        (let df = pd_concat tables in
         case find_header (columns df) (rows df) of
           Inl e \<Rightarrow> Inl e
         | Inr header_index \<Rightarrow>
             (let df1 =
                (case header_index of
                   None \<Rightarrow> df
                 | Some h \<Rightarrow>
                     reset_index
                       \<lparr>columns =
                          map (\<lambda>c. case c of Str s \<Rightarrow> LStr s | _ \<Rightarrow> LNaN)
                            (snd (rows df ! h)),
                        dtypes = dtypes df,
                        rows = drop (h + 1) (rows df)\<rparr>)
              in
              if length (columns df1) = 5 then Inr (df1\<lparr>columns := schema\<rparr>)
              else
                (case positions (columns df1) (LInt 0) of
                   [] \<Rightarrow> Inl (Exc ''KeyError'' ''0'')
                 | [p0] \<Rightarrow>
                     (case filter_str_match date_pattern p0 df1 of
                        Inl e \<Rightarrow> Inl e
                      | Inr df2 \<Rightarrow>
                          (let df3 = \<lparr>columns = take 5 (columns df2),
                                       dtypes = take 5 (dtypes df2),
                                       rows = map (\<lambda>kr. (fst kr, take 5 (snd kr))) (rows df2)\<rparr>
                           in
                           if length (columns df3) \<noteq> 5
                           then Inl (Exc ''ValueError'' ''Length mismatch'')
                           else Inr (df3\<lparr>columns := schema\<rparr>)))
                 | _ \<Rightarrow> Inl (Exc ''AttributeError'' ''DataFrame object has no attribute str'')))))"

text \<open>
  Lines 171 to 176: clean the description, coerce the amounts, drop the rows whose date
  is missing, keep the rows whose date matches, renumber.
\<close>

definition fallback_normalise :: "'n env \<Rightarrow> 'n frame \<Rightarrow> exn + 'n frame" where
  "fallback_normalise env df =
     (case update_column (LStr ''Description'')
             (Exc ''AttributeError'' ''DataFrame object has no attribute str'') str_clean df of
        Inl e \<Rightarrow> Inl e
      | Inr df1 \<Rightarrow>
          (case coerce_columns env [''Debit Amt'', ''Credit Amt'', ''Balance''] df1 of
             Inl e \<Rightarrow> Inl e
           | Inr df2 \<Rightarrow>
               (case positions (columns df2) (LStr ''Date'') of
                  [p] \<Rightarrow>
                    (let df3 = df2\<lparr>rows := filter (\<lambda>kr. cell_at (snd kr) p \<noteq> NaN) (rows df2)\<rparr>
                     in case filter_str_match date_pattern p df3 of
                          Inl e \<Rightarrow> Inl e
                        | Inr df4 \<Rightarrow> Inr (reset_index df4))
                | _ \<Rightarrow> Inl (Exc ''KeyError'' ''Date''))))"

definition fallback_parse :: "'n env \<Rightarrow> grid list \<Rightarrow> exn + 'n frame" where
  "fallback_parse env tables =
     (case fallback_working tables of
        Inl e \<Rightarrow> Inl e
      | Inr df \<Rightarrow> fallback_normalise env df)"

section \<open>Persisting the accepted parser: \<open>save_parser_code\<close>\<close>

text \<open>\<open>s.split('\n')\<close>\<close>

fun split_nl :: "string \<Rightarrow> string list" where
  "split_nl [] = [[]]"
| "split_nl (c # cs) =
     (if c = CHR 0x0A then [] # split_nl cs
      else (case split_nl cs of l # ls \<Rightarrow> (c # l) # ls | [] \<Rightarrow> [[c]]))"

definition saved_parser_path :: "string \<Rightarrow> path" where
  "saved_parser_path target = ''custom_parsers/'' @ target @ ''_parser.py''"

definition save_parser_code :: "string \<Rightarrow> string \<Rightarrow> world \<Rightarrow> (exn + unit) \<times> world" where
  "save_parser_code target code w =
     (let w0 = log (Save code) w in
      if code = [] \<or> py_strip code = [] then (Inr (), print SaveEmpty w0)
      else
        case mkdir_exist_ok (fs w0) ''custom_parsers'' of
          Inl e \<Rightarrow> (Inl e, w0)
        | Inr f1 \<Rightarrow>
            (let f2 = touch f1 ''custom_parsers/__init__.py'';
                 w1 = print (SaveWriting (saved_parser_path target) (take 5 (split_nl code)))
                        (w0\<lparr>fs := f2\<rparr>)
             in
             case write_text f2 (saved_parser_path target) code of
               Inl e \<Rightarrow> (Inl e, w1)
             | Inr f3 \<Rightarrow> (Inr (), print (SaveDone (saved_parser_path target)) (w1\<lparr>fs := f3\<rparr>))))"

section \<open>The retry controller: \<open>main\<close>\<close>

text \<open>Lines 229 and 230: the fence is removed only from a text that starts with \<open>```python\<close>.\<close>

definition strip_fence :: "string \<Rightarrow> string" where
  "strip_fence code =
     (if startswith (py_strip code) ''```python''
      then py_strip (strip_backticks (drop 9 (py_strip code)))
      else code)"

text \<open>
  The loop \<open>for attempt in range(1, max_attempts + 1)\<close> over the attempt numbers still to
  run. The result is the flag \<open>success\<close> when the loop ends or breaks, or the exception
  that \<open>except Exception\<close> does not catch.
\<close>

fun attempt_loop ::
    "'n env \<Rightarrow> string \<Rightarrow> path \<Rightarrow> path \<Rightarrow> nat \<Rightarrow> nat list \<Rightarrow> world \<Rightarrow> (exn + bool) \<times> world" where
  "attempt_loop env target pdf_path csv_path max_attempts [] w = (Inr False, w)"
| "attempt_loop env target pdf_path csv_path max_attempts (attempt # rest) w =
     (let w0 = print (AttemptBanner attempt max_attempts) w in
      case ask_groq_for_parser env target pdf_path csv_path w0 of
        (Inl (Exc cls msg), w1) \<Rightarrow>
          attempt_loop env target pdf_path csv_path max_attempts rest
            (print (Unexpected attempt msg) w1)
      | (Inl e, w1) \<Rightarrow> (Inl e, w1)
      | (Inr raw, w1) \<Rightarrow>
          (let code = strip_fence raw in
           case run_test env target pdf_path csv_path code w1 of
             (Inl (Exc cls msg), w2) \<Rightarrow>
               attempt_loop env target pdf_path csv_path max_attempts rest
                 (print (Unexpected attempt msg) w2)
           | (Inl e, w2) \<Rightarrow> (Inl e, w2)
           | (Inr (ok, message), w2) \<Rightarrow>
               if ok then
                 (case save_parser_code target code (print (Message message) w2) of
                    (Inl (Exc cls msg), w3) \<Rightarrow>
                      attempt_loop env target pdf_path csv_path max_attempts rest
                        (print (Unexpected attempt msg) w3)
                  | (Inl e, w3) \<Rightarrow> (Inl e, w3)
                  | (Inr u, w3) \<Rightarrow> (Inr True, w3))
               else
                 attempt_loop env target pdf_path csv_path max_attempts rest
                   (print (AttemptFailed attempt message) w2)))"

text \<open>Lines 244 to 252: the fallback, outside any \<open>try\<close>.\<close>

definition fallback_phase ::
    "'n env \<Rightarrow> string \<Rightarrow> path \<Rightarrow> path \<Rightarrow> world \<Rightarrow> (exn + unit) \<times> world" where
  "fallback_phase env target pdf_path csv_path w =
     (let w0 = print Exhausted w; fb_code = make_fallback_parser_code in
      case run_test env target pdf_path csv_path fb_code w0 of
        (Inl e, w1) \<Rightarrow> (Inl e, w1)
      | (Inr (ok, message), w1) \<Rightarrow>
          if ok then save_parser_code target fb_code (print (Message message) w1)
          else (Inr (), print (FallbackFailed message) w1))"

definition sample_pdf :: "string \<Rightarrow> path" where
  "sample_pdf target = ''data/'' @ target @ ''/'' @ target @ ''_sample.pdf''"

definition sample_csv :: "string \<Rightarrow> path" where
  "sample_csv target = ''data/'' @ target @ ''/'' @ target @ ''_sample.csv''"

definition main :: "'n env \<Rightarrow> string list \<Rightarrow> world \<Rightarrow> (exn + unit) \<times> world" where
  "main env argv w =
     (if length argv < 3 \<or> argv ! 1 \<noteq> ''--target'' then (Inl (SystemExit 1), print Usage w)
      else
        (let target = argv ! 2;
             w0 = print (Running target) w;
             pdf_path = sample_pdf target;
             csv_path = sample_csv target
         in
         if \<not> path_exists (fs w0) pdf_path \<or> \<not> path_exists (fs w0) csv_path
         then (Inl (SystemExit 1), print (MissingFiles pdf_path csv_path) w0)
         else
           (case attempt_loop env target pdf_path csv_path 3 [1..<3 + 1] w0 of
              (Inl e, w1) \<Rightarrow> (Inl e, w1)
            | (Inr success, w1) \<Rightarrow>
                if \<not> success then fallback_phase env target pdf_path csv_path w1
                else (Inr (), w1))))"

section \<open>The wording of the specification\<close>

text \<open>
  A text wrapped as a fenced code block, in the words of the specification: the opening
  fence with an optional language tag, the inner program text on its own lines, the
  closing fence.
\<close>

definition fenced :: "string \<Rightarrow> string \<Rightarrow> string" where
  "fenced lang inner = ''```'' @ lang @ [CHR 0x0A] @ inner @ [CHR 0x0A] @ ''```''"

section \<open>The column operations, cell by cell\<close>

text \<open>
  The best-effort numeric cast on one cell: a text that reads as a number becomes that
  number, any other text becomes the missing marker, numbers and missing markers stay.
\<close>

definition coerce_cell :: "'n env \<Rightarrow> 'n cell \<Rightarrow> 'n cell" where
  "coerce_cell env c =
     (case c of
        Str s \<Rightarrow> (case str_to_num env s of Some v \<Rightarrow> Num v | None \<Rightarrow> NaN)
      | _ \<Rightarrow> c)"

text \<open>
  Step 4 of the fallback parser on one row of five cells, in the words of the
  specification: the date as it is, the description cleaned, the three amounts cast.
\<close>

definition normalised_row :: "'n env \<Rightarrow> 'n cell list \<Rightarrow> 'n cell list" where
  "normalised_row env r =
     [cell_at r 0, clean_description (cell_at r 1), coerce_cell env (cell_at r 2),
      coerce_cell env (cell_at r 3), coerce_cell env (cell_at r 4)]"

section \<open>Stubs of the collaborators\<close>

text \<open>
  Concrete collaborators, to run the definitions above on concrete inputs. A number is
  given by its decimal text. The reference table has two rows. The interpreter stub knows
  seven sources: one whose \<open>parse\<close> returns the reference table; one whose \<open>parse\<close>
  returns it with the text \<open>NaN\<close> as second description; one whose \<open>parse\<close> returns it
  with the credit column as a column of objects; one whose \<open>parse\<close> raises because of an
  import inside its body; one whose import at top level fails; one that raises
  \<open>SystemExit\<close> while loading; and every other text is a syntax error. The renderer stub
  prints a text cell as its characters and the missing marker as \<open>NaN\<close>, as
  \<open>DataFrame.to_string\<close> does.
\<close>

definition stub_dtypes :: "dtype list" where
  "stub_dtypes = [ObjectDtype, ObjectDtype, Float64, Float64, Float64]"

definition stub_frame :: "string frame" where
  "stub_frame =
     \<lparr>columns = schema, dtypes = stub_dtypes,
      rows = [(0, [Str ''01-04-2024'', Str ''UPI Payment'', Num ''500.0'', NaN,
                   Num ''10000.0'']),
              (1, [Str ''02-04-2024'', Str ''Salary'', NaN, Num ''12.5'',
                   Num ''10012.5''])]\<rparr>"

text \<open>What the CSV reader stub returns: the credit column is still text.\<close>

definition stub_raw_frame :: "string frame" where
  "stub_raw_frame =
     \<lparr>columns = schema,
      dtypes = [ObjectDtype, ObjectDtype, Float64, ObjectDtype, Float64],
      rows = [(0, [Str ''01-04-2024'', Str ''UPI Payment'', Num ''500.0'', Str ''n/a'',
                   Num ''10000.0'']),
              (1, [Str ''02-04-2024'', Str ''Salary'', NaN, Str ''12.5'',
                   Num ''10012.5''])]\<rparr>"

text \<open>The reference table with the second description missing.\<close>

definition stub_nan_frame :: "string frame" where
  "stub_nan_frame =
     \<lparr>columns = schema, dtypes = stub_dtypes,
      rows = [(0, [Str ''01-04-2024'', Str ''UPI Payment'', Num ''500.0'', NaN,
                   Num ''10000.0'']),
              (1, [Str ''02-04-2024'', NaN, NaN, Num ''12.5'', Num ''10012.5''])]\<rparr>"

text \<open>The same with the text \<open>NaN\<close> as second description.\<close>

definition stub_nan_text_frame :: "string frame" where
  "stub_nan_text_frame =
     \<lparr>columns = schema, dtypes = stub_dtypes,
      rows = [(0, [Str ''01-04-2024'', Str ''UPI Payment'', Num ''500.0'', NaN,
                   Num ''10000.0'']),
              (1, [Str ''02-04-2024'', Str ''NaN'', NaN, Num ''12.5'', Num ''10012.5''])]\<rparr>"

text \<open>The reference table with the credit column as a column of objects.\<close>

definition stub_object_frame :: "string frame" where
  "stub_object_frame =
     stub_frame\<lparr>dtypes := [ObjectDtype, ObjectDtype, Float64, ObjectDtype, Float64]\<rparr>"

definition stub_py_exec ::
    "string \<Rightarrow> filesystem \<Rightarrow> (exn + string pymodule) \<times> filesystem" where
  "stub_py_exec src f =
     (if src = ''good'' then
        (Inr (PyModule (Some (\<lambda>p g. (Inr (PyFrame stub_frame), g)))), f)
      else if src = ''nan text'' then
        (Inr (PyModule (Some (\<lambda>p g. (Inr (PyFrame stub_nan_text_frame), g)))), f)
      else if src = ''object dtype'' then
        (Inr (PyModule (Some (\<lambda>p g. (Inr (PyFrame stub_object_frame), g)))), f)
      else if src = ''lazy import'' then
        (Inr (PyModule (Some (\<lambda>p g.
           (Inl (Exc ''ModuleNotFoundError'' ''No module named camelot''), g)))), f)
      else if src = ''import camelot'' then
        (Inl (Exc ''ModuleNotFoundError'' ''No module named camelot''), f)
      else if src = ''raise SystemExit(1)'' then (Inl (SystemExit 1), f)
      else (Inl (Exc ''SyntaxError'' ''invalid syntax''), f))"

definition stub_render_cell :: "string cell \<Rightarrow> string" where
  "stub_render_cell c = (case c of Str s \<Rightarrow> s | Num v \<Rightarrow> v | NaN \<Rightarrow> ''NaN'')"

definition stub_str_to_num :: "string \<Rightarrow> string option" where
  "stub_str_to_num s =
     (if s \<noteq> [] \<and> (\<forall>c \<in> set s. is_digit c \<or> c = CHR ''.'') then Some s else None)"

definition stub_to_string :: "string frame \<Rightarrow> string list" where
  "stub_to_string df =
     map (\<lambda>kr. concat (map (\<lambda>c. CHR '' '' # stub_render_cell c) (snd kr))) (rows df)"

definition stub_diff_hunks :: "string list \<Rightarrow> string list \<Rightarrow> string list" where
  "stub_diff_hunks a b = ''@@'' # map ((#) CHR ''-'') a @ map ((#) CHR ''+'') b"

definition stub_env :: "string env" where
  "stub_env =
     \<lparr>groq_chat = (\<lambda>k target h. Inr []),
      urandom_hex = (\<lambda>k. ''a1b2c3d4''),
      py_exec = stub_py_exec,
      read_csv =
        (\<lambda>s. Inr (if s = ''missing description'' then stub_nan_frame else stub_raw_frame)),
      str_to_num = stub_str_to_num,
      numeric_dtype = (\<lambda>cs. Float64),
      to_string = stub_to_string,
      to_csv = (\<lambda>df. concat (stub_to_string df)),
      diff_hunks = stub_diff_hunks\<rparr>"


definition stub_fs :: filesystem where
  "stub_fs =
     [''data/icici/icici_sample.pdf'' \<mapsto> File ''%PDF'',
      ''data/icici/icici_sample.csv'' \<mapsto> File ''Date,Description,Debit Amt,Credit Amt,Balance'']"

definition stub_world :: world where
  "stub_world =
     \<lparr>fs = stub_fs, stdout = [], sys_modules = [], oracle_calls = 0, rand_calls = 0,
      trace = []\<rparr>"

definition stub_grid :: grid where
  "stub_grid =
     \<lparr>ncols = 5,
      cells = [[''Date'', ''Description'', ''Debit'', ''Credit'', ''Balance''],
               [''01-04-2024'', ''UPI'' @ [CHR 0x0A] @ ''Payment '', ''500.0'', ''n/a'',
                ''10000.0''],
               [''Total'', '''', '''', '''', '''']]\<rparr>"


text \<open>
  The stub world once the sandbox has written a candidate, and the stub world with a
  reference file whose second description is missing.
\<close>

definition stub_scratch :: path where
  "stub_scratch = ''custom_parsers/icici_parser_a1b2c3d4.py''"

definition stub_world_loaded :: "string \<Rightarrow> world" where
  "stub_world_loaded code =
     stub_world\<lparr>fs := stub_fs(''custom_parsers'' \<mapsto> Dir,
                    ''custom_parsers/__init__.py'' \<mapsto> File [],
                    stub_scratch \<mapsto> File code),
                 rand_calls := 1, trace := [Sandbox code]\<rparr>"

definition stub_world_nan :: world where
  "stub_world_nan =
     stub_world\<lparr>fs := stub_fs(''data/icici/icici_sample.csv'' \<mapsto> File ''missing description'')\<rparr>"


section \<open>Facts about strings\<close>

lemma strip_chars_empty_iff: "strip_chars P s = [] \<longleftrightarrow> (\<forall>c \<in> set s. P c)"
proof -
  have "dropWhile P (rev (dropWhile P s)) = [] \<longleftrightarrow> dropWhile P s = []"
  proof (cases "dropWhile P s")
    case Nil
    show ?thesis unfolding Nil by simp
  next
    case (Cons a as)
    then have "\<not> P a"
      using hd_dropWhile[of P s] by (metis list.sel(1) list.distinct(1))
    then have "\<exists>x \<in> set (rev (dropWhile P s)). \<not> P x"
      using Cons by auto
    then show ?thesis
      using Cons by (auto simp: dropWhile_eq_Nil_conv)
  qed
  then show ?thesis
    by (simp add: strip_chars_def dropWhile_eq_Nil_conv)
qed

lemma py_strip_empty_iff: "py_strip s = [] \<longleftrightarrow> (\<forall>c \<in> set s. is_space c)"
  by (simp add: py_strip_def strip_chars_empty_iff)

lemma strip_chars_pad:
  assumes "\<forall>c \<in> set a. P c" and "\<forall>c \<in> set b. P c"
  shows "strip_chars P (a @ s @ b) = strip_chars P s"
proof -
  have 1: "dropWhile P (a @ s @ b) = dropWhile P (s @ b)"
    using assms(1) by (simp add: dropWhile_append)
  show ?thesis
  proof (cases "\<forall>c \<in> set s. P c")
    case True
    then have "strip_chars P (a @ s @ b) = []"
      using assms by (auto simp: strip_chars_empty_iff)
    moreover have "strip_chars P s = []" using True by (simp add: strip_chars_empty_iff)
    ultimately show ?thesis by simp
  next
    case False
    then have "dropWhile P (s @ b) = dropWhile P s @ b"
      by (auto simp: dropWhile_append)
    moreover have "dropWhile P (rev b @ rev (dropWhile P s)) = dropWhile P (rev (dropWhile P s))"
      using assms(2) by (simp add: dropWhile_append)
    ultimately show ?thesis using 1 by (simp add: strip_chars_def)
  qed
qed

lemma strip_chars_id:
  assumes "s \<noteq> []" and "\<not> P (hd s)" and "\<not> P (last s)"
  shows "strip_chars P s = s"
proof -
  have "dropWhile P s = s" using assms(1,2) by (cases s) auto
  moreover have "dropWhile P (rev s) = rev s"
    using assms(1,3) by (cases "rev s") (auto simp: last_rev[symmetric] simp del: last_rev)
  ultimately show ?thesis by (simp add: strip_chars_def)
qed

lemma py_strip_fenced:
  assumes "\<forall>c \<in> set ws1. is_space c" and "\<forall>c \<in> set ws2. is_space c"
  shows "py_strip (ws1 @ fenced lang inner @ ws2) = fenced lang inner"
proof -
  have "py_strip (ws1 @ fenced lang inner @ ws2) = py_strip (fenced lang inner)"
    unfolding py_strip_def using assms by (rule strip_chars_pad)
  also have "\<dots> = fenced lang inner"
    unfolding py_strip_def
    by (rule strip_chars_id) (simp_all add: fenced_def is_space_def)
  finally show ?thesis .
qed

section \<open>The scratch file of a sandbox run\<close>

lemma parser_file_log [simp]: "parser_file env target (log e w) = parser_file env target w"
  by (simp add: parser_file_def parser_module_name_def log_def)

lemma cleanup_not_file: "\<not> is_file (fs (snd (sandbox_cleanup p rw))) p"
  by (cases rw)
     (auto simp: sandbox_cleanup_def path_exists_def unlink_def is_file_def
           split: option.splits node.splits)

lemma setup_failed_not_file:
  assumes "\<not> is_file (fs w) ''custom_parsers''"
    and "sandbox_setup env code target w = (Some e, w1)"
  shows "\<not> is_file (fs w1) (parser_file env target w)"
  using assms
  by (auto simp: sandbox_setup_def Let_def mkdir_exist_ok_def write_text_def is_file_def
           split: option.splits node.splits sum.splits)

text \<open>
  What the \<open>finally\<close> of \<open>run_generated_code\<close> achieves for the candidates this model
  represents: whatever loading and running the candidate does to the files (return,
  raise, delete or rewrite them), no regular file is left at the scratch path of the
  call, provided the scratch directory can be made. Claim C1 asks this of every candidate
  text; the two cases the section on the filesystem leaves out are those where agent.py
  leaves the file behind: a text that UTF-8 cannot encode, for which \<open>write_text\<close> at
  line 48, above the \<open>try\<close>, creates the file and raises, and a candidate that changes the
  working directory, after which the relative path of the \<open>finally\<close> names another file.
\<close>

lemma cleanup_leaves_no_scratch_file:
  assumes "\<not> is_file (fs w) ''custom_parsers''"
  shows "\<not> is_file (fs (snd (run_generated_code env code pdf_path target w)))
            (parser_file env target w)"
proof (cases "sandbox_setup env code target (log (Sandbox code) w)")
  case (Pair eo w1)
  show ?thesis
  proof (cases eo)
    case None
    with Pair cleanup_not_file show ?thesis
      by (simp add: run_generated_code_def Let_def)
  next
    case (Some e)
    have "\<not> is_file (fs (log (Sandbox code) w)) ''custom_parsers''"
      using assms by (simp add: log_def)
    from setup_failed_not_file[OF this] Pair Some
    show ?thesis by (simp add: run_generated_code_def Let_def)
  qed
qed

section \<open>Saving an empty parser\<close>

text \<open>
  Claim C10. For an empty or whitespace-only code text \<open>save_parser_code\<close> returns
  normally and leaves the whole filesystem as it was, so the persisted parser file
  \<open>custom_parsers/<target>_parser.py\<close> is neither created nor overwritten; it only
  prints the error line.
\<close>

theorem save_parser_code_blank:
  assumes "\<forall>c \<in> set code. is_space c"
  shows "fst (save_parser_code target code w) = Inr ()
       \<and> fs (snd (save_parser_code target code w)) = fs w
       \<and> fs (snd (save_parser_code target code w)) (saved_parser_path target)
           = fs w (saved_parser_path target)
       \<and> stdout (snd (save_parser_code target code w)) = stdout w @ [SaveEmpty]"
  using assms
  by (simp add: save_parser_code_def Let_def py_strip_empty_iff print_def log_def)

text \<open>The theorem at two spaces, with an accepted parser already on disk.\<close>

theorem save_parser_code_blank_witness:
  "list_all is_space ''  ''
   \<and> fs (snd (save_parser_code ''icici'' ''  ''
        (stub_world\<lparr>fs := stub_fs(''custom_parsers/icici_parser.py'' \<mapsto> File ''good'')\<rparr>)))
       ''custom_parsers/icici_parser.py'' = Some (File ''good'')"
  using save_parser_code_blank[of "''  ''" "''icici''"
      "stub_world\<lparr>fs := stub_fs(''custom_parsers/icici_parser.py'' \<mapsto> File ''good'')\<rparr>"]
  by (simp add: is_space_def saved_parser_path_def list_all_iff)

section \<open>Missing input files\<close>

text \<open>
  Claim C7. When the command line names a target and the PDF or the CSV of that target
  does not exist, \<open>main\<close> raises \<open>SystemExit(1)\<close>, and the state it leaves differs from
  the state it started in only by two printed lines, the second naming both paths: the
  trace of calls, the count of oracle requests, the count of scratch names drawn and the
  filesystem are the same, so no generation, no sandbox run and no validation happened.
\<close>

theorem missing_input_exits:
  assumes "3 \<le> length argv" and "argv ! 1 = ''--target''"
    and "\<not> path_exists (fs w) (sample_pdf (argv ! 2))
         \<or> \<not> path_exists (fs w) (sample_csv (argv ! 2))"
  shows "main env argv w =
           (Inl (SystemExit 1),
            w\<lparr>stdout := stdout w @ [Running (argv ! 2),
                  MissingFiles (sample_pdf (argv ! 2)) (sample_csv (argv ! 2))]\<rparr>)"
  using assms by (auto simp: main_def Let_def print_def)

text \<open>The theorem at a target without data files.\<close>

theorem missing_input_exits_witness:
  "main stub_env [''agent.py'', ''--target'', ''hdfc''] stub_world =
     (Inl (SystemExit 1),
      stub_world\<lparr>stdout := [Running ''hdfc'',
         MissingFiles ''data/hdfc/hdfc_sample.pdf'' ''data/hdfc/hdfc_sample.csv'']\<rparr>)"
  using missing_input_exits[of "[''agent.py'', ''--target'', ''hdfc'']" stub_world stub_env]
  by (simp add: stub_world_def stub_fs_def path_exists_def sample_pdf_def sample_csv_def)

section \<open>Removing the markdown fence\<close>

text \<open>
  Claim C5, as amended. A response that is a fenced block opened with \<open>```python\<close>,
  with any whitespace around it, is reduced to its inner text without the whitespace at
  its two ends; a response that does not start with \<open>```python\<close> once trimmed is
  passed on as it is. \<open>attempt_loop\<close> gives \<open>strip_fence raw\<close> to \<open>run_test\<close>.
\<close>

theorem strip_fence_python:
  assumes "\<forall>c \<in> set ws1. is_space c" and "\<forall>c \<in> set ws2. is_space c"
  shows "strip_fence (ws1 @ fenced ''python'' inner @ ws2) = py_strip inner
       \<and> (\<forall>code. \<not> startswith (py_strip code) ''```python'' \<longrightarrow> strip_fence code = code)"
proof -
  let ?F = "fenced ''python'' inner"
  have st: "py_strip (ws1 @ ?F @ ws2) = ?F" using assms by (rule py_strip_fenced)
  have sw: "startswith ?F ''```python''" by (simp add: startswith_def fenced_def)
  have dr: "drop 9 ?F = [] @ ([CHR 0x0A] @ inner @ [CHR 0x0A]) @ ''```''"
    by (simp add: fenced_def)
  have sb: "strip_backticks (drop 9 ?F) = strip_backticks ([CHR 0x0A] @ inner @ [CHR 0x0A])"
    unfolding dr strip_backticks_def by (rule strip_chars_pad) simp_all
  have "strip_backticks ([CHR 0x0A] @ inner @ [CHR 0x0A]) = [CHR 0x0A] @ inner @ [CHR 0x0A]"
    unfolding strip_backticks_def by (rule strip_chars_id) simp_all
  moreover have "py_strip ([CHR 0x0A] @ inner @ [CHR 0x0A]) = py_strip inner"
    unfolding py_strip_def by (rule strip_chars_pad) (simp_all add: is_space_def)
  ultimately have "strip_fence (ws1 @ ?F @ ws2) = py_strip inner"
    using st sw sb by (simp add: strip_fence_def)
  then show ?thesis by (simp add: strip_fence_def)
qed

text \<open>The theorem at a fenced one-line program and at a text without fence.\<close>

theorem strip_fence_python_witness:
  "list_all is_space '' '' \<and> list_all is_space [CHR 0x0A]
   \<and> strip_fence ('' '' @ fenced ''python'' ''import pandas as pd'' @ [CHR 0x0A]) = ''import pandas as pd''
   \<and> strip_fence ''x = 1'' = ''x = 1''"
  using strip_fence_python[of "'' ''" "[CHR 0x0A]" "''import pandas as pd''"]
  by (simp add: list_all_iff is_space_def py_strip_def strip_chars_def startswith_def)

text \<open>
  Claim C5 as stated fails: a block fenced with \<open>```\<close> and no language tag reaches the
  sandbox with its fences.
\<close>

theorem strip_fence_counterexample:
  "strip_fence (fenced [] ''x = 1'') = fenced [] ''x = 1'' \<and> strip_fence (fenced [] ''x = 1'') \<noteq> ''x = 1''"
  by (simp add: strip_fence_def fenced_def py_strip_def strip_chars_def is_space_def startswith_def)

section \<open>The calls a run makes\<close>

lemma trace_print [simp]: "trace (print x w) = trace w"
  by (simp add: print_def)

lemma trace_log [simp]: "trace (log e w) = trace w @ [e]"
  by (simp add: log_def)

lemma sandbox_setup_trace: "trace (snd (sandbox_setup env code target w)) = trace w"
  by (simp add: sandbox_setup_def Let_def split: sum.splits)

lemma sandbox_body_trace: "trace (snd (sandbox_body env pf mn pdf w)) = trace w"
  by (simp add: sandbox_body_def Let_def split: prod.splits sum.splits pymodule.splits option.splits)

lemma sandbox_cleanup_trace: "trace (snd (sandbox_cleanup pf rw)) = trace (snd rw)"
  by (simp add: sandbox_cleanup_def split: prod.splits sum.splits)

lemma run_generated_code_trace:
  "trace (snd (run_generated_code env code pdf target w)) = trace w @ [Sandbox code]"
proof (cases "sandbox_setup env code target (log (Sandbox code) w)")
  case (Pair eo w1)
  then have "trace w1 = trace w @ [Sandbox code]"
    using sandbox_setup_trace[of env code target "log (Sandbox code) w"] by simp
  then show ?thesis using Pair
    by (cases eo)
       (simp_all add: run_generated_code_def Let_def sandbox_cleanup_trace sandbox_body_trace)
qed

lemma ask_groq_trace:
  "trace (snd (ask_groq_for_parser env target pdf csv w)) = trace w @ [Generate]"
  by (simp add: ask_groq_for_parser_def Let_def split: sum.splits)

lemma save_parser_code_trace:
  "trace (snd (save_parser_code target code w)) = trace w @ [Save code]"
  by (simp add: save_parser_code_def Let_def split: sum.splits)

lemma run_test_trace:
  "trace (snd (run_test env target pdf csv code w)) =
     trace w @ (if py_strip code = [] then [Validate code] else [Validate code, Sandbox code])"
proof (cases "py_strip code = []")
  case True
  then show ?thesis by (simp add: run_test_def)
next
  case False
  then have ne: "code \<noteq> []" by (auto simp: py_strip_empty_iff)
  obtain r w1 where rg: "run_generated_code env code pdf target (log (Validate code) w) = (r, w1)"
    by (cases "run_generated_code env code pdf target (log (Validate code) w)")
  then have "trace w1 = trace w @ [Validate code, Sandbox code]"
    using run_generated_code_trace[of env code pdf target "log (Validate code) w"] by simp
  then show ?thesis using False ne rg
    by (simp add: run_test_def Let_def split: sum.splits exn.splits pyval.splits)
qed


lemma attempt_step:
  assumes "attempt_loop env target pdf csv m (a # as) w = (r, w')"
  shows "\<exists>w'' tr. trace w'' = trace w @ tr \<and> count_list tr Generate = 1
           \<and> (attempt_loop env target pdf csv m as w'' = (r, w') \<or> (r \<noteq> Inr False \<and> w' = w''))"
proof -
  let ?w0 = "print (AttemptBanner a m) w"
  obtain g w1 where ask: "ask_groq_for_parser env target pdf csv ?w0 = (g, w1)"
    by (cases "ask_groq_for_parser env target pdf csv ?w0")
  have t1: "trace w1 = trace w @ [Generate]"
    using ask_groq_trace[of env target pdf csv ?w0] ask by simp
  show ?thesis
  proof (cases g)
    case (Inl e)
    show ?thesis
    proof (cases e)
      case (Exc cls msg)
      with Inl ask assms have "attempt_loop env target pdf csv m as (print (Unexpected a msg) w1) = (r, w')"
        by simp
      moreover have "trace (print (Unexpected a msg) w1) = trace w @ [Generate]" using t1 by simp
      ultimately show ?thesis by (intro exI[of _ "print (Unexpected a msg) w1"] exI[of _ "[Generate]"]) simp
    next
      case (SystemExit n)
      with Inl ask assms have "r = Inl e" "w' = w1" by auto
      then show ?thesis using t1 by (intro exI[of _ w1] exI[of _ "[Generate]"]) simp
    next
      case (BaseExc c msg)
      with Inl ask assms have "r = Inl e" "w' = w1" by auto
      then show ?thesis using t1 by (intro exI[of _ w1] exI[of _ "[Generate]"]) simp
    qed
  next
    case (Inr raw)
    let ?code = "strip_fence raw"
    obtain v w2 where rt: "run_test env target pdf csv ?code w1 = (v, w2)"
      by (cases "run_test env target pdf csv ?code w1")
    have t2: "\<exists>tr. trace w2 = trace w @ Generate # tr \<and> count_list tr Generate = 0"
      using run_test_trace[of env target pdf csv ?code w1] rt t1 by auto
    then obtain tr2 where tr2: "trace w2 = trace w @ Generate # tr2" "count_list tr2 Generate = 0"
      by blast
    show ?thesis
    proof (cases v)
      case (Inl e)
      show ?thesis
      proof (cases e)
        case (Exc cls msg)
        with Inl Inr ask rt assms
        have "attempt_loop env target pdf csv m as (print (Unexpected a msg) w2) = (r, w')"
          by (simp add: Let_def)
        then show ?thesis using tr2
          by (intro exI[of _ "print (Unexpected a msg) w2"] exI[of _ "Generate # tr2"]) simp
      next
        case (SystemExit n)
        with Inl Inr ask rt assms have "r = Inl e" "w' = w2" by (auto simp: Let_def)
        then show ?thesis using tr2 by (intro exI[of _ w2] exI[of _ "Generate # tr2"]) simp
      next
        case (BaseExc c msg)
        with Inl Inr ask rt assms have "r = Inl e" "w' = w2" by (auto simp: Let_def)
        then show ?thesis using tr2 by (intro exI[of _ w2] exI[of _ "Generate # tr2"]) simp
      qed
    next
      case vInr: (Inr okm)
      obtain ok message where okm: "okm = (ok, message)" by (cases okm)
      show ?thesis
      proof (cases ok)
        case False
        with vInr okm Inr ask rt assms
        have "attempt_loop env target pdf csv m as (print (AttemptFailed a message) w2) = (r, w')"
          by (simp add: Let_def)
        then show ?thesis using tr2
          by (intro exI[of _ "print (AttemptFailed a message) w2"] exI[of _ "Generate # tr2"]) simp
      next
        case True
        obtain s w3 where sv: "save_parser_code target ?code (print (Message message) w2) = (s, w3)"
          by (cases "save_parser_code target ?code (print (Message message) w2)")
        have t3: "trace w3 = trace w @ Generate # tr2 @ [Save ?code]"
          using save_parser_code_trace[of target ?code "print (Message message) w2"] sv tr2 by simp
        have c3: "count_list (Generate # tr2 @ [Save ?code]) Generate = 1" using tr2 by simp
        show ?thesis
        proof (cases s)
          case sInl: (Inl e)
          show ?thesis
          proof (cases e)
            case (Exc cls msg)
            with sInl sv True vInr okm Inr ask rt assms
            have "attempt_loop env target pdf csv m as (print (Unexpected a msg) w3) = (r, w')"
              by (simp add: Let_def)
            then show ?thesis using t3 c3
              by (intro exI[of _ "print (Unexpected a msg) w3"] exI[of _ "Generate # tr2 @ [Save ?code]"]) simp
          next
            case (SystemExit n)
            with sInl sv True vInr okm Inr ask rt assms have "r = Inl e" "w' = w3" by (auto simp: Let_def)
            then show ?thesis using t3 c3 by (intro exI[of _ w3] exI[of _ "Generate # tr2 @ [Save ?code]"]) simp
          next
            case (BaseExc c msg)
            with sInl sv True vInr okm Inr ask rt assms have "r = Inl e" "w' = w3" by (auto simp: Let_def)
            then show ?thesis using t3 c3 by (intro exI[of _ w3] exI[of _ "Generate # tr2 @ [Save ?code]"]) simp
          qed
        next
          case sInr: (Inr u)
          with sv True vInr okm Inr ask rt assms have "r = Inr True" "w' = w3" by (auto simp: Let_def)
          then show ?thesis using t3 c3 by (intro exI[of _ w3] exI[of _ "Generate # tr2 @ [Save ?code]"]) simp
        qed
      qed
    qed
  qed
qed

lemma attempt_loop_trace:
  assumes "attempt_loop env target pdf csv m as w = (r, w')"
  shows "\<exists>tr. trace w' = trace w @ tr \<and> count_list tr Generate \<le> length as
            \<and> (r = Inr False \<longrightarrow> count_list tr Generate = length as)"
  using assms
proof (induction as arbitrary: w)
  case Nil
  then show ?case by simp
next
  case (Cons a as)
  from attempt_step[OF Cons.prems] obtain w'' tr where
    st: "trace w'' = trace w @ tr" "count_list tr Generate = 1"
        "attempt_loop env target pdf csv m as w'' = (r, w') \<or> (r \<noteq> Inr False \<and> w' = w'')"
    by blast
  from st(3) show ?case
  proof
    assume "attempt_loop env target pdf csv m as w'' = (r, w')"
    from Cons.IH[OF this] obtain tr' where
      "trace w' = trace w'' @ tr'" "count_list tr' Generate \<le> length as"
      "r = Inr False \<longrightarrow> count_list tr' Generate = length as" by blast
    then show ?thesis using st(1,2)
      by (intro exI[of _ "tr @ tr'"]) simp
  next
    assume "r \<noteq> Inr False \<and> w' = w''"
    then show ?thesis using st(1,2) by (intro exI[of _ tr]) simp
  qed
qed




text \<open>
  One attempt hands the text of the oracle to the validator after \<open>strip_fence\<close>.
\<close>

lemma attempt_validates_stripped_code:
  assumes "ask_groq_for_parser env target pdf csv (print (AttemptBanner a m) w) = (Inr raw, w1)"
  shows "\<exists>tr. trace (snd (attempt_loop env target pdf csv m (a # as) w)) =
                trace w1 @ Validate (strip_fence raw) # tr"
proof -
  let ?code = "strip_fence raw"
  obtain v w2 where rt: "run_test env target pdf csv ?code w1 = (v, w2)"
    by (cases "run_test env target pdf csv ?code w1")
  obtain tr2 where t2: "trace w2 = trace w1 @ Validate ?code # tr2"
    using run_test_trace[of env target pdf csv ?code w1] rt by (cases "py_strip ?code = []") auto
  have cont: "\<exists>tr. trace (snd (attempt_loop env target pdf csv m as w3)) =
                  trace w1 @ Validate ?code # tr"
    if "\<exists>tr3. trace w3 = trace w2 @ tr3" for w3
  proof -
    obtain r w' where l: "attempt_loop env target pdf csv m as w3 = (r, w')"
      by (cases "attempt_loop env target pdf csv m as w3")
    from attempt_loop_trace[OF l] that t2 show ?thesis using l by auto
  qed
  show ?thesis
  proof (cases v)
    case (Inl e)
    show ?thesis
    proof (cases e)
      case (Exc cls msg)
      have "\<exists>tr3. trace (print (Unexpected a msg) w2) = trace w2 @ tr3" by simp
      from cont[OF this] show ?thesis using assms rt Inl Exc by (simp add: Let_def)
    next
      case (SystemExit n)
      then show ?thesis using assms rt Inl t2 by (simp add: Let_def)
    next
      case (BaseExc c msg)
      then show ?thesis using assms rt Inl t2 by (simp add: Let_def)
    qed
  next
    case (Inr okm)
    obtain ok message where okm: "okm = (ok, message)" by (cases okm)
    show ?thesis
    proof (cases ok)
      case False
      have "\<exists>tr3. trace (print (AttemptFailed a message) w2) = trace w2 @ tr3" by simp
      from cont[OF this] show ?thesis using assms rt Inr okm False by (simp add: Let_def)
    next
      case True
      obtain s w3 where sv: "save_parser_code target ?code (print (Message message) w2) = (s, w3)"
        by (cases "save_parser_code target ?code (print (Message message) w2)")
      have t3: "trace w3 = trace w2 @ [Save ?code]"
        using save_parser_code_trace[of target ?code "print (Message message) w2"] sv by simp
      show ?thesis
      proof (cases s)
        case sInl: (Inl e)
        show ?thesis
        proof (cases e)
          case (Exc cls msg)
          have "\<exists>tr3. trace (print (Unexpected a msg) w3) = trace w2 @ tr3" using t3 by simp
          from cont[OF this] show ?thesis using assms rt Inr okm True sv sInl Exc
            by (simp add: Let_def)
        next
          case (SystemExit n)
          then show ?thesis using assms rt Inr okm True sv sInl t2 t3 by (simp add: Let_def)
        next
          case (BaseExc c msg)
          then show ?thesis using assms rt Inr okm True sv sInl t2 t3 by (simp add: Let_def)
        qed
      next
        case sInr: (Inr u)
        then show ?thesis using assms rt Inr okm True sv t2 t3 by (simp add: Let_def)
      qed
    qed
  qed
qed

section \<open>The retry bound\<close>

text \<open>What a run changes in the two counters of the world.\<close>

lemma print_counters [simp]:
  "rand_calls (print x w) = rand_calls w" "oracle_calls (print x w) = oracle_calls w"
  by (simp_all add: print_def)

lemma log_counters [simp]:
  "rand_calls (log e w) = rand_calls w" "oracle_calls (log e w) = oracle_calls w"
  by (simp_all add: log_def)

















section \<open>Running the stubs\<close>

lemmas stub_table_simps =
  numeric_columns_def update_column_def positions_def
  stub_raw_frame_def stub_frame_def stub_nan_frame_def stub_nan_text_frame_def schema_def upt_rec
  pd_to_numeric_def to_numeric_cell_def stub_str_to_num_def is_digit_def cell_at_def
  dtype_at_def stub_dtypes_def

lemmas stub_run_simps =
  run_generated_code_def sandbox_setup_def Let_def log_def stub_world_def stub_fs_def
  mkdir_exist_ok_def touch_def write_text_def parser_file_def parser_module_name_def stub_env_def
  sandbox_body_def exec_module_def stub_py_exec_def sandbox_cleanup_def path_exists_def unlink_def

lemma stub_coerce:
  "coerce_columns stub_env numeric_columns stub_raw_frame = Inr stub_frame"
  "coerce_columns stub_env numeric_columns stub_nan_frame = Inr stub_nan_frame"
  by (simp_all add: stub_table_simps stub_env_def)

lemma stub_read_csv:
  "read_csv stub_env s =
     Inr (if s = ''missing description'' then stub_nan_frame else stub_raw_frame)"
  by (simp add: stub_env_def)

lemma stub_reference:
  "read_csv_as_df stub_env f ''data/icici/icici_sample.csv'' =
     (case f ''data/icici/icici_sample.csv'' of
        Some (File s) \<Rightarrow> Inr (if s = ''missing description'' then stub_nan_frame else stub_frame)
      | Some Dir \<Rightarrow> Inl (Exc ''IsADirectoryError'' ''data/icici/icici_sample.csv'')
      | None \<Rightarrow> Inl (Exc ''FileNotFoundError'' ''data/icici/icici_sample.csv''))"
  by (simp add: read_csv_as_df_def pd_read_csv_def stub_read_csv stub_coerce
           split: option.splits node.splits)

lemma stub_run_good:
  "fst (run_generated_code stub_env ''good'' ''data/icici/icici_sample.pdf'' ''icici''
          (log (Validate ''good'') stub_world)) = Inr (PyFrame stub_frame)"
  "fs (snd (run_generated_code stub_env ''good'' ''data/icici/icici_sample.pdf'' ''icici''
          (log (Validate ''good'') stub_world))) ''data/icici/icici_sample.csv''
     = Some (File ''Date,Description,Debit Amt,Credit Amt,Balance'')"
  "fs (snd (run_generated_code stub_env ''good'' ''data/icici/icici_sample.pdf'' ''icici''
          (log (Validate ''good'') stub_world))) ''output'' = None"
  "fs (snd (run_generated_code stub_env ''good'' ''data/icici/icici_sample.pdf'' ''icici''
          (log (Validate ''good'') stub_world))) ''output/icici_output.csv'' = None"
  by (simp_all add: stub_run_simps)

lemma stub_run_nan_text:
  "fst (run_generated_code stub_env ''nan text'' ''data/icici/icici_sample.pdf'' ''icici''
          (log (Validate ''nan text'') w)) = Inr (PyFrame stub_nan_text_frame)"
  "fs (snd (run_generated_code stub_env ''nan text'' ''data/icici/icici_sample.pdf'' ''icici''
          (log (Validate ''nan text'') w))) ''data/icici/icici_sample.csv''
     = fs w ''data/icici/icici_sample.csv''"
  if "fs w ''custom_parsers'' = None" "fs w ''custom_parsers/icici_parser_a1b2c3d4.py'' = None"
  using that
  by (simp_all add: run_generated_code_def sandbox_setup_def Let_def log_def
  mkdir_exist_ok_def touch_def write_text_def parser_file_def parser_module_name_def stub_env_def
  sandbox_body_def exec_module_def stub_py_exec_def sandbox_cleanup_def path_exists_def unlink_def
  split: option.splits)

lemma stub_fields:
  "to_string stub_env = stub_to_string" "diff_hunks stub_env = stub_diff_hunks"
  "to_csv stub_env = (\<lambda>df. concat (stub_to_string df))"
  by (simp_all add: stub_env_def)

lemma stub_not_blank:
  "py_strip ''good'' \<noteq> []" "py_strip ''nan text'' \<noteq> []"
  "py_strip ''import camelot'' \<noteq> []" "py_strip ''lazy import'' \<noteq> []"
  "py_strip ''def parse(:'' \<noteq> []"
  by (simp_all add: py_strip_empty_iff is_space_def)

lemma stub_setup:
  "sandbox_setup stub_env code ''icici'' (log (Sandbox code) stub_world) = (None, stub_world_loaded code)"
  by (simp add: sandbox_setup_def Let_def log_def stub_world_def stub_fs_def mkdir_exist_ok_def
      touch_def write_text_def parser_file_def parser_module_name_def stub_env_def stub_world_loaded_def stub_scratch_def)

lemma stub_run_validate:
  "fst (run_generated_code stub_env ''lazy import'' ''data/icici/icici_sample.pdf'' ''icici''
          (log (Validate ''lazy import'') stub_world))
     = Inl (Exc ''ModuleNotFoundError'' ''No module named camelot'')"
  by (simp add: run_generated_code_def sandbox_setup_def Let_def log_def stub_world_def stub_fs_def
      mkdir_exist_ok_def touch_def write_text_def parser_file_def parser_module_name_def stub_env_def
      sandbox_body_def exec_module_def stub_py_exec_def sandbox_cleanup_def path_exists_def unlink_def)

section \<open>How a sandbox run fails\<close>

lemma sandbox_setup_written:
  assumes "sandbox_setup env code target w = (None, w1)"
  shows "fs w1 (parser_file env target w) = Some (File code)"
  using assms
  by (auto simp: sandbox_setup_def Let_def write_text_def
           split: sum.splits option.splits node.splits)

lemma sandbox_cleanup_keeps:
  assumes "fs w p \<noteq> Some Dir"
  shows "fst (sandbox_cleanup p (r, w)) = r"
  using assms
  by (auto simp: sandbox_cleanup_def path_exists_def unlink_def split: option.splits node.splits)

text \<open>
  Claim C6, as amended. Once the scratch file is written, a sandbox run that fails raises
  the very exception of the step that failed: the one \<open>exec_module\<close> raised while
  loading, or the one \<open>parse\<close> raised while running (provided the candidate has not put
  a directory in the place of its scratch file, which makes the cleanup raise instead).
  Nothing turns it into an \<open>ImportError\<close> or a \<open>RuntimeError\<close>, and \<open>run_test\<close> reports
  either kind as the same message, the text of the exception after the label
  \<open>IMPORT/RUNTIME ERROR\<close>.
\<close>

theorem sandbox_failure_propagates:
  assumes "sandbox_setup env code target (log (Sandbox code) w) = (None, w1)"
  shows "(\<forall>e f. py_exec env code (fs w1) = (Inl e, f) \<and> f (parser_file env target w) \<noteq> Some Dir
            \<longrightarrow> fst (run_generated_code env code pdf target w) = Inl e)
       \<and> (\<forall>parse f e f'. py_exec env code (fs w1) = (Inr (PyModule (Some parse)), f)
              \<and> parse pdf f = (Inl e, f') \<and> f' (parser_file env target w) \<noteq> Some Dir
            \<longrightarrow> fst (run_generated_code env code pdf target w) = Inl e)
       \<and> (\<forall>w0 cls msg. py_strip code \<noteq> []
              \<and> fst (run_generated_code env code pdf target (log (Validate code) w0)) = Inl (Exc cls msg)
            \<longrightarrow> fst (run_test env target pdf csv code w0) = Inr (False, ImportRuntimeError msg))"
proof (intro conjI allI impI)
  let ?pf = "parser_file env target w"
  have wr: "fs w1 ?pf = Some (File code)"
    using sandbox_setup_written[OF assms] by simp
  have run: "run_generated_code env code pdf target w =
        sandbox_cleanup ?pf (sandbox_body env ?pf (parser_module_name env target (log (Sandbox code) w)) pdf w1)"
    using assms by (simp add: run_generated_code_def)
  {
    fix e f
    assume a: "py_exec env code (fs w1) = (Inl e, f) \<and> f ?pf \<noteq> Some Dir"
    then show "fst (run_generated_code env code pdf target w) = Inl e"
      unfolding run using wr
      by (simp add: sandbox_body_def exec_module_def Let_def sandbox_cleanup_keeps)
  next
    fix parse f e f'
    assume a: "py_exec env code (fs w1) = (Inr (PyModule (Some parse)), f)
              \<and> parse pdf f = (Inl e, f') \<and> f' ?pf \<noteq> Some Dir"
    then show "fst (run_generated_code env code pdf target w) = Inl e"
      unfolding run using wr
      by (simp add: sandbox_body_def exec_module_def Let_def sandbox_cleanup_keeps)
  next
    fix w0 cls msg
    assume a: "py_strip code \<noteq> []
              \<and> fst (run_generated_code env code pdf target (log (Validate code) w0)) = Inl (Exc cls msg)"
    then have "code \<noteq> []" by (auto simp: py_strip_empty_iff)
    then show "fst (run_test env target pdf csv code w0) = Inr (False, ImportRuntimeError msg)"
      using a
      by (cases "run_generated_code env code pdf target (log (Validate code) w0)")
         (simp add: run_test_def Let_def)
  }
qed

text \<open>The theorem at a candidate whose \<open>parse\<close> raises on an import in its body.\<close>

theorem sandbox_failure_propagates_witness:
  "sandbox_setup stub_env ''lazy import'' ''icici'' (log (Sandbox ''lazy import'') stub_world)
     = (None, stub_world_loaded ''lazy import'')
   \<and> fst (run_generated_code stub_env ''lazy import'' ''data/icici/icici_sample.pdf'' ''icici''
            stub_world) = Inl (Exc ''ModuleNotFoundError'' ''No module named camelot'')
   \<and> fst (run_test stub_env ''icici'' ''data/icici/icici_sample.pdf'' ''data/icici/icici_sample.csv''
            ''lazy import'' stub_world)
       = Inr (False, ImportRuntimeError ''No module named camelot'')"
proof -
  let ?e = "Exc ''ModuleNotFoundError'' ''No module named camelot''"
  let ?parse = "\<lambda>(p::path) (g::filesystem). (Inl ?e :: exn + string pyval, g)"
  note th = sandbox_failure_propagates[OF stub_setup[of "''lazy import''"],
      of "''data/icici/icici_sample.pdf''" "''data/icici/icici_sample.csv''"]
  have "py_exec stub_env ''lazy import'' (fs (stub_world_loaded ''lazy import''))
          = (Inr (PyModule (Some ?parse)), fs (stub_world_loaded ''lazy import''))"
    by (simp add: stub_env_def stub_py_exec_def)
  moreover have "fs (stub_world_loaded ''lazy import'') (parser_file stub_env ''icici'' stub_world)
          \<noteq> Some Dir"
    by (simp add: stub_world_loaded_def stub_scratch_def parser_file_def parser_module_name_def
          stub_env_def stub_world_def)
  ultimately have 1: "fst (run_generated_code stub_env ''lazy import''
        ''data/icici/icici_sample.pdf'' ''icici'' stub_world) = Inl ?e"
    using th[THEN conjunct2, THEN conjunct1, rule_format,
        of ?parse "fs (stub_world_loaded ''lazy import'')" ?e "fs (stub_world_loaded ''lazy import'')"]
    by simp
  have 2: "fst (run_test stub_env ''icici'' ''data/icici/icici_sample.pdf''
        ''data/icici/icici_sample.csv'' ''lazy import'' stub_world)
       = Inr (False, ImportRuntimeError ''No module named camelot'')"
    using th[THEN conjunct2, THEN conjunct2, rule_format,
        of stub_world "''ModuleNotFoundError''" "''No module named camelot''"]
      stub_run_validate stub_not_blank by simp
  show ?thesis using 1 2 stub_setup by simp
qed

text \<open>
  Claim C6 as stated fails: a candidate with bad syntax fails with \<open>SyntaxError\<close>, not
  \<open>ImportError\<close>; and a candidate whose import fails at top level and one whose import
  fails inside \<open>parse\<close> give the caller the same outcome, from \<open>run_generated_code\<close> and
  from \<open>run_test\<close>.
\<close>

theorem sandbox_failure_counterexample:
  "fst (stub_py_exec ''def parse(:'' stub_fs) = Inl (Exc ''SyntaxError'' ''invalid syntax'')
   \<and> fst (run_generated_code stub_env ''def parse(:'' ''data/icici/icici_sample.pdf'' ''icici''
            stub_world) = Inl (Exc ''SyntaxError'' ''invalid syntax'')
   \<and> fst (stub_py_exec ''import camelot'' stub_fs)
       = Inl (Exc ''ModuleNotFoundError'' ''No module named camelot'')
   \<and> (\<exists>parse. fst (stub_py_exec ''lazy import'' stub_fs) = Inr (PyModule (Some parse))
         \<and> fst (parse ''data/icici/icici_sample.pdf'' stub_fs)
             = Inl (Exc ''ModuleNotFoundError'' ''No module named camelot''))
   \<and> fst (run_generated_code stub_env ''import camelot'' ''data/icici/icici_sample.pdf'' ''icici''
            stub_world)
       = fst (run_generated_code stub_env ''lazy import'' ''data/icici/icici_sample.pdf'' ''icici''
            stub_world)
   \<and> fst (run_test stub_env ''icici'' ''data/icici/icici_sample.pdf''
            ''data/icici/icici_sample.csv'' ''import camelot'' stub_world)
       = fst (run_test stub_env ''icici'' ''data/icici/icici_sample.pdf''
            ''data/icici/icici_sample.csv'' ''lazy import'' stub_world)"
  using stub_not_blank
  by (simp add: run_test_def run_generated_code_def sandbox_setup_def Let_def log_def stub_world_def stub_fs_def
      mkdir_exist_ok_def touch_def write_text_def parser_file_def parser_module_name_def stub_env_def
      sandbox_body_def exec_module_def stub_py_exec_def sandbox_cleanup_def path_exists_def unlink_def)

section \<open>The verdict of the validator\<close>

lemma zip_upt_eq: "zip [0..<length a] a = zip [0..<length b] b \<longleftrightarrow> a = b"
proof
  assume "zip [0..<length a] a = zip [0..<length b] b"
  then have "map snd (zip [0..<length a] a) = map snd (zip [0..<length b] b)" by simp
  then show "a = b" by (simp add: map_snd_zip_take)
qed simp

lemma equals_reset_iff:
  "equals (reset_index (df :: 'n frame)) (reset_index other) \<longleftrightarrow>
     columns df = columns other \<and> dtypes df = dtypes other
     \<and> map snd (rows df) = map snd (rows other)"
  using zip_upt_eq[of "map snd (rows df)" "map snd (rows other)"]
  by (simp add: equals_def reset_index_def)

lemma output_path_neq: "output_path target \<noteq> ''output''"
  by (simp add: output_path_def)

text \<open>
  When the two tables are equal and \<open>output\<close> is a regular file, \<open>output_dir.mkdir\<close>
  raises and the validator returns no verdict at all.
\<close>

lemma run_test_output_blocked:
  assumes "py_strip code \<noteq> []"
    and "run_generated_code env code pdf target (log (Validate code) w) = (Inr (PyFrame df0), w1)"
    and "read_csv_as_df env (fs w1) csv = Inr ref"
    and "equals (reset_index df0) (reset_index ref)"
    and "fs w1 ''output'' = Some (File s)"
  shows "run_test env target pdf csv code w = (Inl (Exc ''FileExistsError'' ''output''), w1)"
proof -
  have ne: "code \<noteq> []" using assms(1) by (auto simp: py_strip_empty_iff)
  have "columns (reset_index df0) = columns (reset_index ref)"
    using assms(4) by (simp add: equals_def)
  then show ?thesis
    using assms ne by (simp add: run_test_def Let_def mkdir_exist_ok_def)
qed



text \<open>
  Claim C3, as amended. For a candidate that returned a table and a reference that
  loaded: if the two have the same column labels, the same dtype column by column and
  the same cells row by row (missing markers equal to each other, no tolerance on
  numbers), and the output file can be written, the verdict is pass; if the column
  labels agree and a dtype or a cell differs, the verdict is fail with the first 40
  lines of the unified diff of the two renderings, which has at most 40 lines and is
  empty exactly when the two tables render to the same text.
\<close>

theorem validator_verdict:
  assumes "py_strip code \<noteq> []"
    and "run_generated_code env code pdf target (log (Validate code) w) = (Inr (PyFrame df0), w1)"
    and "read_csv_as_df env (fs w1) csv = Inr ref"
  shows "(columns df0 = columns ref \<and> dtypes df0 = dtypes ref
            \<and> map snd (rows df0) = map snd (rows ref)
            \<and> \<not> is_file (fs w1) ''output'' \<and> fs w1 (output_path target) \<noteq> Some Dir
          \<longrightarrow> fst (run_test env target pdf csv code w) = Inr (True, Matched (output_path target)))
       \<and> (columns df0 = columns ref
            \<and> (dtypes df0 \<noteq> dtypes ref \<or> map snd (rows df0) \<noteq> map snd (rows ref))
          \<longrightarrow> (\<exists>d. fst (run_test env target pdf csv code w) = Inr (False, DataMismatch d)
                 \<and> d = take 40 (unified_diff env (to_string env (reset_index ref))
                                   (to_string env (reset_index df0)))
                 \<and> length d \<le> 40
                 \<and> (d = [] \<longleftrightarrow>
                      to_string env (reset_index ref) = to_string env (reset_index df0))))"
proof -
  have ne: "code \<noteq> []" using assms(1) by (auto simp: py_strip_empty_iff)
  have cols: "columns (reset_index df0) = columns df0" "columns (reset_index ref) = columns ref"
    by (simp_all add: reset_index_def)
  have r: "run_test env target pdf csv code w =
      (if columns df0 \<noteq> columns ref then
         (Inr (False, MismatchColumns (columns ref) (columns df0)), w1)
       else if equals (reset_index df0) (reset_index ref) then
         (case mkdir_exist_ok (fs w1) ''output'' of
            Inl e \<Rightarrow> (Inl e, w1)
          | Inr f1 \<Rightarrow>
              (case write_text f1 (output_path target) (to_csv env (reset_index df0)) of
                 Inl e \<Rightarrow> (Inl e, w1\<lparr>fs := f1\<rparr>)
               | Inr f2 \<Rightarrow> (Inr (True, Matched (output_path target)), w1\<lparr>fs := f2\<rparr>)))
       else
         (Inr (False, DataMismatch
                 (take 40 (unified_diff env (to_string env (reset_index ref))
                             (to_string env (reset_index df0))))), w1))"
    using assms ne by (simp add: run_test_def Let_def cols)
  show ?thesis
  proof (intro conjI impI)
    assume a: "columns df0 = columns ref \<and> dtypes df0 = dtypes ref
            \<and> map snd (rows df0) = map snd (rows ref)
            \<and> \<not> is_file (fs w1) ''output'' \<and> fs w1 (output_path target) \<noteq> Some Dir"
    then have "equals (reset_index df0) (reset_index ref)" by (simp add: equals_reset_iff)
    then show "fst (run_test env target pdf csv code w) = Inr (True, Matched (output_path target))"
      unfolding r using a
      by (auto simp: mkdir_exist_ok_def write_text_def is_file_def output_path_neq
               split: option.splits node.splits)
  next
    assume a: "columns df0 = columns ref
            \<and> (dtypes df0 \<noteq> dtypes ref \<or> map snd (rows df0) \<noteq> map snd (rows ref))"
    then have "\<not> equals (reset_index df0) (reset_index ref)" by (simp add: equals_reset_iff)
    then show "\<exists>d. fst (run_test env target pdf csv code w) = Inr (False, DataMismatch d)
                 \<and> d = take 40 (unified_diff env (to_string env (reset_index ref))
                                   (to_string env (reset_index df0)))
                 \<and> length d \<le> 40
                 \<and> (d = [] \<longleftrightarrow>
                      to_string env (reset_index ref) = to_string env (reset_index df0))"
      unfolding r using a by (simp add: unified_diff_def)
  qed
qed

text \<open>
  The theorem at the stub candidate that returns the reference table and at the one that
  returns it with another description.
\<close>

theorem validator_verdict_witness:
  "fst (run_test stub_env ''icici'' ''data/icici/icici_sample.pdf'' ''data/icici/icici_sample.csv''
          ''good'' stub_world) = Inr (True, Matched ''output/icici_output.csv'')
   \<and> fst (run_test stub_env ''icici'' ''data/icici/icici_sample.pdf'' ''data/icici/icici_sample.csv''
          ''nan text'' stub_world)
       = Inr (False, DataMismatch
            [''--- '', ''+++ '', ''@@'',
             ''- 01-04-2024 UPI Payment 500.0 NaN 10000.0'',
             ''- 02-04-2024 Salary NaN 12.5 10012.5'',
             ''+ 01-04-2024 UPI Payment 500.0 NaN 10000.0'',
             ''+ 02-04-2024 NaN NaN 12.5 10012.5''])"
proof -
  let ?g = "run_generated_code stub_env ''good'' ''data/icici/icici_sample.pdf'' ''icici''
          (log (Validate ''good'') stub_world)"
  let ?n = "run_generated_code stub_env ''nan text'' ''data/icici/icici_sample.pdf'' ''icici''
          (log (Validate ''nan text'') stub_world)"
  obtain wg where g: "?g = (Inr (PyFrame stub_frame), wg)"
    using stub_run_good(1) by (metis prod.collapse)
  have wg: "fs wg ''data/icici/icici_sample.csv''
              = Some (File ''Date,Description,Debit Amt,Credit Amt,Balance'')"
      "fs wg ''output'' = None" "fs wg ''output/icici_output.csv'' = None"
    using stub_run_good(2,3,4) unfolding g by simp_all
  have gr: "read_csv_as_df stub_env (fs wg) ''data/icici/icici_sample.csv'' = Inr stub_frame"
    by (simp add: stub_reference wg)
  have sw: "fs stub_world ''custom_parsers'' = None"
       "fs stub_world ''custom_parsers/icici_parser_a1b2c3d4.py'' = None"
    by (simp_all add: stub_world_def stub_fs_def)
  obtain wn where n: "?n = (Inr (PyFrame stub_nan_text_frame), wn)"
    using stub_run_nan_text(1)[OF sw] by (metis prod.collapse)
  have "fs wn ''data/icici/icici_sample.csv'' = fs stub_world ''data/icici/icici_sample.csv''"
    using stub_run_nan_text(2)[OF sw] unfolding n by simp
  then have nr: "read_csv_as_df stub_env (fs wn) ''data/icici/icici_sample.csv'' = Inr stub_frame"
    by (simp add: stub_reference stub_world_def stub_fs_def)
  have 1: "fst (run_test stub_env ''icici'' ''data/icici/icici_sample.pdf''
         ''data/icici/icici_sample.csv'' ''good'' stub_world)
       = Inr (True, Matched (output_path ''icici''))"
    using validator_verdict[OF stub_not_blank(1) g gr] wg(2,3)
    by (simp add: is_file_def output_path_def)
  have "columns stub_nan_text_frame = columns stub_frame"
       "map snd (rows stub_nan_text_frame) \<noteq> map snd (rows stub_frame)"
    by (simp_all add: stub_nan_text_frame_def stub_frame_def)
  then have 2: "fst (run_test stub_env ''icici'' ''data/icici/icici_sample.pdf''
         ''data/icici/icici_sample.csv'' ''nan text'' stub_world)
       = Inr (False, DataMismatch (take 40 (unified_diff stub_env
            (to_string stub_env (reset_index stub_frame))
            (to_string stub_env (reset_index stub_nan_text_frame)))))"
    using validator_verdict[OF stub_not_blank(2) n nr] by simp
  show ?thesis unfolding 1 2
    by (simp add: output_path_def stub_fields stub_to_string_def unified_diff_def
          stub_diff_hunks_def reset_index_def stub_frame_def stub_nan_text_frame_def
          stub_render_cell_def)
qed

text \<open>
  Claim C3 as stated fails, twice. Where the reference has a missing description and the
  candidate has the text \<open>NaN\<close> there, the tables differ in that one cell, both render
  the same, and the verdict is fail with an empty diff. And where the candidate has the
  cells of the reference but holds its credit column as a column of objects, the two
  are equal cell for cell and the verdict is fail: \<open>DataFrame.equals\<close> compares the
  dtypes too.
\<close>

theorem validator_verdict_counterexample:
  "read_csv_as_df stub_env (fs stub_world_nan) ''data/icici/icici_sample.csv'' = Inr stub_nan_frame
   \<and> columns stub_nan_text_frame = columns stub_nan_frame
   \<and> dtypes stub_nan_text_frame = dtypes stub_nan_frame
   \<and> map snd (rows stub_nan_frame)
        = [[Str ''01-04-2024'', Str ''UPI Payment'', Num ''500.0'', NaN, Num ''10000.0''],
           [Str ''02-04-2024'', NaN, NaN, Num ''12.5'', Num ''10012.5'']]
   \<and> map snd (rows stub_nan_text_frame)
        = [[Str ''01-04-2024'', Str ''UPI Payment'', Num ''500.0'', NaN, Num ''10000.0''],
           [Str ''02-04-2024'', Str ''NaN'', NaN, Num ''12.5'', Num ''10012.5'']]
   \<and> fst (run_generated_code stub_env ''nan text'' ''data/icici/icici_sample.pdf'' ''icici''
          (log (Validate ''nan text'') stub_world_nan)) = Inr (PyFrame stub_nan_text_frame)
   \<and> fst (run_test stub_env ''icici'' ''data/icici/icici_sample.pdf'' ''data/icici/icici_sample.csv''
          ''nan text'' stub_world_nan) = Inr (False, DataMismatch [])
   \<and> read_csv_as_df stub_env (fs stub_world) ''data/icici/icici_sample.csv'' = Inr stub_frame
   \<and> columns stub_object_frame = columns stub_frame
   \<and> rows stub_object_frame = rows stub_frame
   \<and> fst (run_generated_code stub_env ''object dtype'' ''data/icici/icici_sample.pdf'' ''icici''
          (log (Validate ''object dtype'') stub_world)) = Inr (PyFrame stub_object_frame)
   \<and> dtypes stub_object_frame \<noteq> dtypes stub_frame
   \<and> (\<exists>d. fst (run_test stub_env ''icici'' ''data/icici/icici_sample.pdf''
          ''data/icici/icici_sample.csv'' ''object dtype'' stub_world)
            = Inr (False, DataMismatch d))"
proof -
  let ?n = "run_generated_code stub_env ''nan text'' ''data/icici/icici_sample.pdf'' ''icici''
          (log (Validate ''nan text'') stub_world_nan)"
  let ?o = "run_generated_code stub_env ''object dtype'' ''data/icici/icici_sample.pdf'' ''icici''
          (log (Validate ''object dtype'') stub_world)"
  have sw: "fs stub_world_nan ''custom_parsers'' = None"
       "fs stub_world_nan ''custom_parsers/icici_parser_a1b2c3d4.py'' = None"
    by (simp_all add: stub_world_nan_def stub_world_def stub_fs_def)
  obtain wn where n: "?n = (Inr (PyFrame stub_nan_text_frame), wn)"
    using stub_run_nan_text(1)[OF sw] by (metis prod.collapse)
  have "fs wn ''data/icici/icici_sample.csv'' = fs stub_world_nan ''data/icici/icici_sample.csv''"
    using stub_run_nan_text(2)[OF sw] unfolding n by simp
  then have nr: "read_csv_as_df stub_env (fs wn) ''data/icici/icici_sample.csv'' = Inr stub_nan_frame"
    by (simp add: stub_reference stub_world_nan_def stub_world_def)
  have r0: "read_csv_as_df stub_env (fs stub_world_nan) ''data/icici/icici_sample.csv''
        = Inr stub_nan_frame"
    by (simp add: stub_reference stub_world_nan_def stub_world_def)
  have t: "fst (run_test stub_env ''icici'' ''data/icici/icici_sample.pdf''
          ''data/icici/icici_sample.csv'' ''nan text'' stub_world_nan) = Inr (False, DataMismatch [])"
    using stub_not_blank(2)
    by (simp add: run_test_def n nr Let_def reset_index_def equals_def stub_nan_frame_def
          stub_nan_text_frame_def stub_fields stub_to_string_def unified_diff_def
          stub_render_cell_def)
  have o1: "fst ?o = Inr (PyFrame stub_object_frame)"
    and o2: "fs (snd ?o) ''data/icici/icici_sample.csv''
               = Some (File ''Date,Description,Debit Amt,Credit Amt,Balance'')"
    by (simp_all add: stub_run_simps)
  obtain wo where o: "?o = (Inr (PyFrame stub_object_frame), wo)"
    using o1 by (metis prod.collapse)
  have orf: "read_csv_as_df stub_env (fs wo) ''data/icici/icici_sample.csv'' = Inr stub_frame"
    using o2 unfolding o by (simp add: stub_reference)
  have r1: "read_csv_as_df stub_env (fs stub_world) ''data/icici/icici_sample.csv'' = Inr stub_frame"
    by (simp add: stub_reference stub_world_def stub_fs_def)
  have nb: "py_strip ''object dtype'' \<noteq> []"
    by (simp add: py_strip_empty_iff is_space_def)
  have u: "fst (run_test stub_env ''icici'' ''data/icici/icici_sample.pdf''
          ''data/icici/icici_sample.csv'' ''object dtype'' stub_world) = Inr (False, DataMismatch [])"
    using nb
    by (simp add: run_test_def o orf Let_def reset_index_def equals_def stub_frame_def
          stub_object_frame_def stub_dtypes_def stub_fields stub_to_string_def unified_diff_def
          stub_render_cell_def)
  show ?thesis using r0 t stub_run_nan_text(1)[OF sw] r1 o1 u
    by (simp add: stub_nan_frame_def stub_nan_text_frame_def stub_object_frame_def
          stub_frame_def stub_dtypes_def)
qed

end
